theory Spec2Isabelle
  imports Complex_Main "HOL-Library.Word" "HOL-Library.Sublist" "HOL-Library.Log_Nat"
begin

text \<open>
  The upload pipeline of the repository: \<^verbatim>\<open>handler_upload_video.go\<close>,
  \<^verbatim>\<open>get_video_aspect_ratio.go\<close>, \<^verbatim>\<open>preprocess_video.go\<close> and
  \<^verbatim>\<open>handler_upload_thumbnail.go\<close>. The first part is the model, each function
  under the name it has in the sources; the second part, from the section on
  resolve-for-read on, holds the theorems.
\<close>

section \<open>Go strings and the string functions the handlers call\<close>

text \<open>
  A Go string is a sequence of bytes, so it is a \<^typ>\<open>string\<close> here: a list of 8-bit
  characters. Text outside ASCII is its UTF-8 encoding, several bytes per code point.
\<close>

text \<open>
  \<^verbatim>\<open>strings.Index(s, substr)\<close>: the byte index of the first occurrence of \<open>substr\<close> in
  \<open>s\<close>; Go's \<open>-1\<close> is \<open>None\<close>.
\<close>

fun Index :: "string \<Rightarrow> string \<Rightarrow> nat option" where
  "Index [] sub = (if sub = [] then Some 0 else None)"
| "Index (c # t) sub =
     (if prefix sub (c # t) then Some 0 else map_option Suc (Index t sub))"

text \<open>\<^verbatim>\<open>strings.Contains(s, substr)\<close> is \<^verbatim>\<open>Index(s, substr) >= 0\<close>.\<close>

definition Contains :: "string \<Rightarrow> string \<Rightarrow> bool" where
  "Contains s sub = (Index s sub \<noteq> None)"

text \<open>
  \<^verbatim>\<open>strings.SplitN(s, sep, n)\<close> for a non-empty separator and \<open>n \<ge> 0\<close> (the handler
  calls it with \<open>","\<close> and \<open>2\<close>): at most \<open>n\<close> pieces, cut at the first occurrences of
  \<open>sep\<close>; the last piece is the unsplit remainder.
\<close>

fun SplitN :: "string \<Rightarrow> string \<Rightarrow> nat \<Rightarrow> string list" where
  "SplitN s sep 0 = []"
| "SplitN s sep (Suc 0) = [s]"
| "SplitN s sep (Suc (Suc n)) =
     (case Index s sep of
        None \<Rightarrow> [s]
      | Some m \<Rightarrow> take m s # SplitN (drop (m + length sep) s) sep (Suc n))"

text \<open>
  The white space of \<^verbatim>\<open>unicode.IsSpace\<close>, each code point as the bytes of its UTF-8
  encoding: U+0009 to U+000D, U+0020, U+0085, U+00A0, U+1680, U+2000 to U+200A, U+2028,
  U+2029, U+202F, U+205F and U+3000.
\<close>

definition whiteSpace :: "string list" where
  "whiteSpace =
    [[CHR 0x09], [CHR 0x0A], [CHR 0x0B], [CHR 0x0C], [CHR 0x0D], [CHR 0x20],
     [CHR 0xC2, CHR 0x85], [CHR 0xC2, CHR 0xA0],
     [CHR 0xE1, CHR 0x9A, CHR 0x80],
     [CHR 0xE2, CHR 0x80, CHR 0x80], [CHR 0xE2, CHR 0x80, CHR 0x81],
     [CHR 0xE2, CHR 0x80, CHR 0x82], [CHR 0xE2, CHR 0x80, CHR 0x83],
     [CHR 0xE2, CHR 0x80, CHR 0x84], [CHR 0xE2, CHR 0x80, CHR 0x85],
     [CHR 0xE2, CHR 0x80, CHR 0x86], [CHR 0xE2, CHR 0x80, CHR 0x87],
     [CHR 0xE2, CHR 0x80, CHR 0x88], [CHR 0xE2, CHR 0x80, CHR 0x89],
     [CHR 0xE2, CHR 0x80, CHR 0x8A],
     [CHR 0xE2, CHR 0x80, CHR 0xA8], [CHR 0xE2, CHR 0x80, CHR 0xA9],
     [CHR 0xE2, CHR 0x80, CHR 0xAF],
     [CHR 0xE2, CHR 0x81, CHR 0x9F],
     [CHR 0xE3, CHR 0x80, CHR 0x80]]"

text \<open>
  The number of bytes of the white-space rune a string starts with, respectively ends
  with; \<open>0\<close> when it starts (ends) with none. A UTF-8 encoding is read as its rune both
  from the front (\<^verbatim>\<open>utf8.DecodeRuneInString\<close>) and from the back
  (\<^verbatim>\<open>utf8.DecodeLastRuneInString\<close>), and no byte sequence other than its encoding
  decodes to a rune.
\<close>

definition leadingSpace :: "string \<Rightarrow> nat" where
  "leadingSpace s = (case find (\<lambda>e. prefix e s) whiteSpace of None \<Rightarrow> 0 | Some e \<Rightarrow> length e)"

definition trailingSpace :: "string \<Rightarrow> nat" where
  "trailingSpace s = (case find (\<lambda>e. suffix e s) whiteSpace of None \<Rightarrow> 0 | Some e \<Rightarrow> length e)"

text \<open>
  \<^verbatim>\<open>strings.TrimLeftFunc(s, unicode.IsSpace)\<close> and
  \<^verbatim>\<open>strings.TrimRightFunc(s, unicode.IsSpace)\<close>: drop white-space runes from the
  front (the back) until the first (last) rune that is not one.
\<close>

function TrimLeftSpace :: "string \<Rightarrow> string" where
  "TrimLeftSpace s =
     (if leadingSpace s = 0 then s else TrimLeftSpace (drop (leadingSpace s) s))"
  by pat_completeness auto
termination
proof (relation "measure length")
  show "wf (measure length)" by simp
next
  fix s :: string
  assume "leadingSpace s \<noteq> 0"
  moreover have "leadingSpace s \<le> length s"
    by (auto simp: leadingSpace_def prefix_def find_Some_iff split: option.splits)
  ultimately show "(drop (leadingSpace s) s, s) \<in> measure length"
    by simp
qed

function TrimRightSpace :: "string \<Rightarrow> string" where
  "TrimRightSpace s =
     (if trailingSpace s = 0 then s
      else TrimRightSpace (take (length s - trailingSpace s) s))"
  by pat_completeness auto
termination
proof (relation "measure length")
  show "wf (measure length)" by simp
next
  fix s :: string
  assume "trailingSpace s \<noteq> 0"
  moreover have "trailingSpace s \<le> length s"
    by (auto simp: trailingSpace_def suffix_def find_Some_iff split: option.splits)
  ultimately show "(take (length s - trailingSpace s) s, s) \<in> measure length"
    by simp
qed

declare TrimLeftSpace.simps [simp del] TrimRightSpace.simps [simp del]

text \<open>
  \<^verbatim>\<open>strings.TrimSpace(s)\<close>: \<open>s\<close> without its leading and trailing white space, as
  defined by Unicode.
\<close>

definition TrimSpace :: "string \<Rightarrow> string" where
  "TrimSpace s = TrimRightSpace (TrimLeftSpace s)"

section \<open>Video records and errors\<close>

text \<open>
  \<^verbatim>\<open>uuid.UUID\<close> is an array of 16 bytes; \<^verbatim>\<open>time.Duration\<close> is a count of
  nanoseconds.
\<close>

type_synonym uuid = "128 word"

type_synonym Duration = int

definition Second :: Duration where
  "Second = 1000000000"

definition Minute :: Duration where
  "Minute = 60 * Second"

text \<open>
  Modelled from the spec: the declaration of \<^verbatim>\<open>database.Video\<close> (package
  \<^verbatim>\<open>internal/database\<close>) is not among the sources. The spec's video record has an
  identifier, an owner identifier, a nullable location reference, a nullable thumbnail
  reference and descriptive fields that the handlers never touch. A nil \<^verbatim>\<open>*string\<close>
  is \<open>None\<close>.
\<close>

record Video =
  ID :: uuid
  UserID :: uuid
  ThumbnailURL :: "string option"
  VideoURL :: "string option"
  Descriptive :: string

text \<open>
  Go errors as values. The two errors that \<^verbatim>\<open>dbVideoToSignedVideo\<close> builds carry the
  trimmed reference they quote; the errors of \<^verbatim>\<open>getVideoAspectRatio\<close> and
  \<^verbatim>\<open>processVideoForFastStart\<close> wrap the error of the command they ran; an error that
  comes from a collaborator (the object store, the record store, the operating system,
  a library parser) is opaque.
\<close>

datatype error =
    External string
  | MalformedVideoURL string
  | EmptyBucketOrKey string
  | FfprobeFailed error
  | ParseFfprobeOutput error
  | NoStreamsFound
  | InvalidWidthHeight
  | FfmpegFailed error

text \<open>The spec's \<open>MalformedReference\<close>: either error of the reference decoder.\<close>

fun MalformedReference :: "error \<Rightarrow> bool" where
  "MalformedReference (MalformedVideoURL raw) = True"
| "MalformedReference (EmptyBucketOrKey raw) = True"
| "MalformedReference e = False"

section \<open>Resolve-for-read: \<^verbatim>\<open>handler_upload_video.go\<close>, lines 22 to 68\<close>

text \<open>
  The presign client of the object store, \<^verbatim>\<open>PresignGetObject\<close> with
  \<^verbatim>\<open>WithPresignExpires\<close>: for a bucket, a key and a validity window it gives a URL
  or an error. It is a parameter of the model.
\<close>

type_synonym s3Client = "string \<Rightarrow> string \<Rightarrow> Duration \<Rightarrow> error + string"

definition generatePresignedURL ::
  "s3Client \<Rightarrow> string \<Rightarrow> string \<Rightarrow> Duration \<Rightarrow> string \<times> error option" where
  "generatePresignedURL s3Client bucket key expireTime =
     (case s3Client bucket key expireTime of
        Inl err \<Rightarrow> ('''', Some err)
      | Inr url \<Rightarrow> (url, None))"

text \<open>
  \<^verbatim>\<open>dbVideoToSignedVideo\<close> returns a record and an error, as the Go function does;
  \<open>None\<close> is Go's nil error. \<open>parts ! 0\<close> and \<open>parts ! 1\<close> are read only where
  \<open>parts\<close> has two elements.
\<close>

definition dbVideoToSignedVideo :: "s3Client \<Rightarrow> Video \<Rightarrow> Video \<times> error option" where
  "dbVideoToSignedVideo s3Client video =
     (if VideoURL video = None \<or> VideoURL video = Some '''' then (video, None)
      else
        let raw = TrimSpace (the (VideoURL video)) in
        if Contains raw ''://'' then (video, None)
        else
          let parts = SplitN raw '','' 2 in
          if length parts \<noteq> 2 then (video, Some (MalformedVideoURL raw))
          else
            let bucket = TrimSpace (parts ! 0);
                key = TrimSpace (parts ! 1) in
            if bucket = '''' \<or> key = '''' then (video, Some (EmptyBucketOrKey raw))
            else
              (case generatePresignedURL s3Client bucket key (15 * Minute) of
                 (url, Some err) \<Rightarrow> (video, Some err)
               | (url, None) \<Rightarrow> (video\<lparr>VideoURL := Some url\<rparr>, None)))"

text \<open>
  The encoder of the reference codec, line 196 of the upload handler:
  \<^verbatim>\<open>fmt.Sprintf("%s,%s", cfg.s3Bucket, key)\<close>.
\<close>

definition encodeReference :: "string \<Rightarrow> string \<Rightarrow> string" where
  "encodeReference bucket key = bucket @ '','' @ key"

section \<open>float64 arithmetic\<close>

text \<open>
  Go's \<^verbatim>\<open>float64\<close> is the IEEE 754 binary64 format: a finite value is \<open>m * 2 ^ e\<close>
  with \<open>\<bar>m\<bar> < 2 ^ 53\<close> and \<open>- 1074 \<le> e\<close>, and every operation gives the exact result
  rounded to the nearest such value, a tie to the one with an even \<open>m\<close>. The finite
  values are rationals here. Neither an infinity nor a NaN arises in
  \<^verbatim>\<open>getVideoAspectRatio\<close>: it converts two non-zero 64-bit integers, divides
  one conversion by the other, which gives a magnitude between \<open>2 ^ - 64\<close> and
  \<open>2 ^ 64\<close>, and subtracts a constant below 2. Overflow, which starts near
  \<open>2 ^ 1024\<close>, is therefore left out of the model.
\<close>

type_synonym float64 = rat

text \<open>\<open>floorLog2 x\<close> is the integer \<open>k\<close> with \<open>2 ^ k \<le> x < 2 ^ (k + 1)\<close>, for \<open>0 < x\<close>.\<close>

definition floorLog2 :: "rat \<Rightarrow> int" where
  "floorLog2 x = (if 1 \<le> x then bitlen \<lfloor>x\<rfloor> - 1 else - bitlen (\<lceil>1 / x\<rceil> - 1))"

text \<open>Rounding to the nearest integer, a tie to the even one.\<close>

definition roundHalfEven :: "rat \<Rightarrow> int" where
  "roundHalfEven q =
     (let f = \<lfloor>q\<rfloor>; r = q - of_int f
      in if r < 1 / 2 then f
         else if 1 / 2 < r then f + 1
         else if even f then f else f + 1)"

text \<open>
  The float64 nearest to a rational \<open>x\<close>: \<open>x\<close> is scaled so that its integer part has
  53 bits (fewer below \<open>2 ^ - 1022\<close>, where the spacing of the values stays
  \<open>2 ^ - 1074\<close>), rounded to an integer and scaled back.
\<close>

definition roundToFloat64 :: "rat \<Rightarrow> float64" where
  "roundToFloat64 x =
     (if x = 0 then 0
      else
        let e = max (floorLog2 \<bar>x\<bar>) (- 1022) - 52
        in of_int (roundHalfEven (x / 2 powi e)) * 2 powi e)"

text \<open>
  The conversion \<^verbatim>\<open>float64(i)\<close> of a 64-bit \<^verbatim>\<open>int\<close>, the quotient \<^verbatim>\<open>a / b\<close> (for
  \<open>b \<noteq> 0\<close>) and the difference \<^verbatim>\<open>a - b\<close> of two float64 values, and a constant
  expression such as \<^verbatim>\<open>16.0/9.0\<close> or \<^verbatim>\<open>0.01\<close>, which Go evaluates exactly and
  rounds once where it becomes a float64.
\<close>

definition float64_of_int :: "64 word \<Rightarrow> float64" where
  "float64_of_int i = roundToFloat64 (of_int (sint i))"

definition float64_div :: "float64 \<Rightarrow> float64 \<Rightarrow> float64" where
  "float64_div a b = roundToFloat64 (a / b)"

definition float64_sub :: "float64 \<Rightarrow> float64 \<Rightarrow> float64" where
  "float64_sub a b = roundToFloat64 (a - b)"

definition float64_const :: "rat \<Rightarrow> float64" where
  "float64_const c = roundToFloat64 c"

section \<open>The orientation classifier: \<^verbatim>\<open>get_video_aspect_ratio.go\<close>\<close>

text \<open>\<^verbatim>\<open>math.Abs\<close> is exact.\<close>

definition almostEqual :: "float64 \<Rightarrow> float64 \<Rightarrow> float64 \<Rightarrow> bool" where
  "almostEqual a b tol = (\<bar>float64_sub a b\<bar> \<le> tol)"

text \<open>
  \<^verbatim>\<open>ffprobeOutput\<close>: the streams of the probed file, each with a width and a height.
  Go's \<^verbatim>\<open>int\<close> has 64 bits on the platforms the server runs on.
\<close>

record Stream =
  Width :: "64 word"
  Height :: "64 word"

record ffprobeOutput =
  Streams :: "Stream list"

section \<open>The collaborators of the handlers\<close>

text \<open>
  The handlers call libraries, external tools, the operating system, the object store
  and the record store. What such a call returns is not decided by the sources, so each
  is a field of the record \<open>Env\<close>, a parameter of the model: the theorems hold for
  every environment. An \<open>error option\<close> is the \<^verbatim>\<open>error\<close> result of a call that
  returns nothing else; \<open>None\<close> is nil.
\<close>

text \<open>How a run of \<^verbatim>\<open>ffmpeg\<close> ends: with exit status 0 and the output file
  written, or with an error; a run that fails may have created its output file
  already.\<close>

datatype ffmpegRun = Exit0 | ExitError error bool

text \<open>How \<^verbatim>\<open>PutObject\<close> ends. After a failure the object may or may not exist in the
  store (section 4.5 of the spec).\<close>

datatype putResult = PutOK | PutError error bool

record Env =
  uuid_Parse :: "string \<Rightarrow> error + uuid"
  uuid_String :: "uuid \<Rightarrow> string"
  auth_GetBearerToken :: "(string \<times> string) list \<Rightarrow> error + string"
  auth_ValidateJWT :: "string \<Rightarrow> string \<Rightarrow> error + uuid"
  mime_ParseMediaType :: "string \<Rightarrow> error + string"
  strings_ToLower :: "string \<Rightarrow> string"
  filepath_Join :: "string \<Rightarrow> string \<Rightarrow> string"
  os_CreateTemp :: "string \<Rightarrow> string \<Rightarrow> error + string"
  os_Create :: "string \<Rightarrow> error option"
  os_Open :: "string \<Rightarrow> error option"
  io_Copy :: "string \<Rightarrow> error option"
  file_Seek :: "string \<Rightarrow> error option"
  exec_ffprobe :: "string \<Rightarrow> error + string"
  json_Unmarshal :: "string \<Rightarrow> error + ffprobeOutput"
  exec_ffmpeg :: "string \<Rightarrow> string \<Rightarrow> ffmpegRun"
  rand_Read :: "error option"
  rand_bytes :: "nat \<Rightarrow> 8 word"
  s3_PutObject :: "string \<Rightarrow> string \<Rightarrow> putResult"
  s3_Presign :: s3Client
  db_UpdateVideo :: "Video \<Rightarrow> error option"

text \<open>
  \<^verbatim>\<open>getVideoAspectRatio\<close>: the run of \<^verbatim>\<open>ffprobe\<close> on the file gives its standard
  output or an error, \<^verbatim>\<open>json.Unmarshal\<close> reads the output or fails; the rest is the
  function's own code. \<open>Streams probe ! 0\<close> is read only where the list is not empty.
\<close>

definition getVideoAspectRatio :: "Env \<Rightarrow> string \<Rightarrow> error + string" where
  "getVideoAspectRatio env filePath =
     (case exec_ffprobe env filePath of
        Inl err \<Rightarrow> Inl (FfprobeFailed err)
      | Inr outBuf \<Rightarrow>
          (case json_Unmarshal env outBuf of
             Inl err \<Rightarrow> Inl (ParseFfprobeOutput err)
           | Inr probe \<Rightarrow>
               if length (Streams probe) = 0 then Inl NoStreamsFound
               else
                 let width = Width (Streams probe ! 0);
                     height = Height (Streams probe ! 0) in
                 if width = 0 \<or> height = 0 then Inl InvalidWidthHeight
                 else
                   let ratio = float64_div (float64_of_int width) (float64_of_int height) in
                   if almostEqual ratio (float64_const (16 / 9)) (float64_const (1 / 100))
                   then Inr ''16:9''
                   else if almostEqual ratio (float64_const (9 / 16)) (float64_const (1 / 100))
                   then Inr ''9:16''
                   else Inr ''other''))"

section \<open>The state the handlers change\<close>

text \<open>
  Modelled from the spec: the record store (package \<^verbatim>\<open>internal/database\<close>) is not among
  the sources. Section 6 of the spec gives it two operations, \<open>get(id)\<close>, a record or
  \<open>NotFound\<close>, and \<open>update(record)\<close>, ok or \<open>PersistenceFailure\<close>. The store is a map
  from identifiers to records; whether an update fails is the environment's choice.

  The state of the world is the record store, the paths of the files on the disk and
  the objects (bucket and key) in the object store. File contents are not modelled.
\<close>

record World =
  db :: "uuid \<rightharpoonup> Video"
  disk :: "string set"
  s3 :: "(string \<times> string) set"

definition NotFound :: error where
  "NotFound = External ''video not found''"

definition GetVideo :: "World \<Rightarrow> uuid \<Rightarrow> error + Video" where
  "GetVideo w videoID = (case db w videoID of None \<Rightarrow> Inl NotFound | Some video \<Rightarrow> Inr video)"

definition UpdateVideo :: "Env \<Rightarrow> Video \<Rightarrow> World \<Rightarrow> World \<times> error option" where
  "UpdateVideo env video w =
     (case db_UpdateVideo env video of
        Some err \<Rightarrow> (w, Some err)
      | None \<Rightarrow> (w\<lparr>db := (db w)(ID video \<mapsto> video)\<rparr>, None))"

text \<open>
  \<^verbatim>\<open>os.Remove\<close> deletes the file at a path; the handlers ignore its result, and the
  model takes it to succeed on a file this request created.
\<close>

definition os_Remove :: "string \<Rightarrow> World \<Rightarrow> World" where
  "os_Remove name w = w\<lparr>disk := disk w - {name}\<rparr>"

definition PutObject :: "Env \<Rightarrow> string \<Rightarrow> string \<Rightarrow> World \<Rightarrow> World \<times> error option" where
  "PutObject env bucket key w =
     (case s3_PutObject env bucket key of
        PutOK \<Rightarrow> (w\<lparr>s3 := insert (bucket, key) (s3 w)\<rparr>, None)
      | PutError err stored \<Rightarrow>
          (if stored then w\<lparr>s3 := insert (bucket, key) (s3 w)\<rparr> else w, Some err))"

section \<open>The remuxer: \<^verbatim>\<open>preprocess_video.go\<close>\<close>

definition processVideoForFastStart :: "Env \<Rightarrow> string \<Rightarrow> World \<Rightarrow> World \<times> (error + string)" where
  "processVideoForFastStart env filePath w =
     (let outputPath = filePath @ ''.processing'' in
      case exec_ffmpeg env filePath outputPath of
        ExitError err created \<Rightarrow>
          (if created then w\<lparr>disk := insert outputPath (disk w)\<rparr> else w,
           Inl (FfmpegFailed err))
      | Exit0 \<Rightarrow> (w\<lparr>disk := insert outputPath (disk w)\<rparr>, Inr outputPath))"

section \<open>Requests, responses and the configuration\<close>

text \<open>
  Modelled from the spec: \<^verbatim>\<open>apiConfig\<close>, \<^verbatim>\<open>respondWithError\<close> and
  \<^verbatim>\<open>respondWithJSON\<close> are declared outside the sources. The configuration holds
  the token secret, the bucket, the assets directory and the port (its record store and
  its object store client are the \<open>World\<close> and the \<open>Env\<close>). A failure reaches the
  caller as a status code and a readable message, the cause is logged and not sent
  (section 7 of the spec); a success is a status code and the record as JSON.
\<close>

record apiConfig =
  jwtSecret :: string
  s3Bucket :: string
  assetsRoot :: string
  port :: string

datatype Payload = ErrorMessage string | VideoJSON Video

record Response =
  StatusCode :: nat
  Sent :: Payload

definition respondWithError :: "nat \<Rightarrow> string \<Rightarrow> error option \<Rightarrow> Response" where
  "respondWithError code msg err = \<lparr>StatusCode = code, Sent = ErrorMessage msg\<rparr>"

definition respondWithJSON :: "nat \<Rightarrow> Video \<Rightarrow> Response" where
  "respondWithJSON code video = \<lparr>StatusCode = code, Sent = VideoJSON video\<rparr>"

text \<open>The status codes of \<^verbatim>\<open>net/http\<close> that the handlers use.\<close>

definition StatusOK :: nat where "StatusOK = 200"
definition StatusBadRequest :: nat where "StatusBadRequest = 400"
definition StatusUnauthorized :: nat where "StatusUnauthorized = 401"
definition StatusNotFound :: nat where "StatusNotFound = 404"
definition StatusInternalServerError :: nat where "StatusInternalServerError = 500"
definition StatusBadGateway :: nat where "StatusBadGateway = 502"

text \<open>
  What a handler reads of the request: the path values, the headers, and for a form
  field the uploaded part, its bytes and the value of its \<open>Content-Type\<close> header
  (\<^verbatim>\<open>Header.Get\<close> gives the empty string when the header is missing), or an error.

  Both handlers call \<^verbatim>\<open>r.ParseMultipartForm(maxMemory)\<close> before they look at the
  part and drop the error it returns. The call reads the whole body: up to
  \<open>maxMemory\<close> bytes of the file parts are kept in memory and the rest is stored on
  the disk, in files \<^verbatim>\<open>multipart-*\<close> of the temporary directory. \<open>ReadForm\<close> gives,
  for a memory limit, the names of the files that \<^verbatim>\<open>multipart.Reader.ReadForm\<close>
  writes for the body of this request: none when the file parts fit in memory, and none
  when the body cannot be read as a form. These files are on the disk from the call on,
  whatever the handler decides afterwards; the server removes them only when the
  handler has returned (\<^verbatim>\<open>MultipartForm.RemoveAll\<close>), so the state that a handler
  returns still has them.
\<close>

record Part =
  Bytes :: string
  ContentType :: string

record Request =
  PathValue :: "string \<Rightarrow> string"
  Header :: "(string \<times> string) list"
  ReadForm :: "int \<Rightarrow> string list"
  FormFile :: "string \<Rightarrow> error + Part"

definition ParseMultipartForm :: "Request \<Rightarrow> int \<Rightarrow> World \<Rightarrow> World" where
  "ParseMultipartForm r maxMemory w = w\<lparr>disk := disk w \<union> set (ReadForm r maxMemory)\<rparr>"

section \<open>The upload handler: \<^verbatim>\<open>handler_upload_video.go\<close>, lines 70 to 211\<close>

unbundle bit_operations_syntax

text \<open>\<^verbatim>\<open>hex.EncodeToString\<close>: two characters of \<open>hextable\<close> for each byte, the high
  four bits first.\<close>

definition hextable :: string where
  "hextable = ''0123456789abcdef''"

definition EncodeToString :: "8 word list \<Rightarrow> string" where
  "EncodeToString src =
     concat (map (\<lambda>v. [hextable ! unat (drop_bit 4 v), hextable ! unat (v AND 0x0f)]) src)"

text \<open>The storage key of line 180, for an orientation tag and the 32 bytes read.\<close>

definition storageKey :: "Env \<Rightarrow> string \<Rightarrow> string" where
  "storageKey env orientation =
     orientation @ ''-'' @ EncodeToString (map (rand_bytes env) [0..<32]) @ ''.mp4''"

text \<open>
  The handler is modelled in three parts, cut where the source registers the deferred
  removal of a file: a deferred call runs when the handler returns, whichever
  \<^verbatim>\<open>return\<close> it leaves by, so the part of the body after a \<^verbatim>\<open>defer\<close> is a
  function of its own and the deferred call is applied to the state it returns. The
  deferred \<^verbatim>\<open>Close\<close> calls change nothing that is modelled.

  Lines 166 to 210, after \<^verbatim>\<open>defer os.Remove(processedPath)\<close>. \<^verbatim>\<open>rand.Read\<close>
  fills the 32 bytes of \<open>b\<close> or fails. The source's variable \<open>signed\<close> is
  \<open>signedVideo\<close> here (\<open>signed\<close> is a constant of the word library).
\<close>

definition uploadProcessed ::
  "apiConfig \<Rightarrow> Env \<Rightarrow> Video \<Rightarrow> string \<Rightarrow> string \<Rightarrow> string \<Rightarrow> World \<Rightarrow> World \<times> Response" where
  "uploadProcessed cfg env video mimeType orientation processedPath w =
     (case os_Open env processedPath of
        Some err \<Rightarrow>
          (w, respondWithError StatusInternalServerError ''Failed to open processed video'' (Some err))
      | None \<Rightarrow>
          let b = map (rand_bytes env) [0..<32] in
          (case rand_Read env of
             Some err \<Rightarrow>
               (w, respondWithError StatusInternalServerError ''Failed to generate key'' (Some err))
           | None \<Rightarrow>
               let key = orientation @ ''-'' @ EncodeToString b @ ''.mp4'' in
               (case PutObject env (s3Bucket cfg) key w of
                  (w1, Some err) \<Rightarrow>
                    (w1, respondWithError StatusBadGateway ''failed to upload to s3'' (Some err))
                | (w1, None) \<Rightarrow>
                    let raw = s3Bucket cfg @ '','' @ key;
                        video = video\<lparr>VideoURL := Some raw\<rparr> in
                    (case UpdateVideo env video w1 of
                       (w2, Some err) \<Rightarrow>
                         (w2, respondWithError StatusInternalServerError
                                ''failed to update video url'' (Some err))
                     | (w2, None) \<Rightarrow>
                         (case dbVideoToSignedVideo (s3_Presign env) video of
                            (signedVideo, Some err) \<Rightarrow>
                              (w2, respondWithError StatusInternalServerError
                                     ''failed to sign video url'' (Some err))
                          | (signedVideo, None) \<Rightarrow>
                              (w2, respondWithJSON StatusOK signedVideo))))))"

text \<open>
  Lines 139 to 164, after \<^verbatim>\<open>defer os.Remove(dst.Name())\<close>. When
  \<^verbatim>\<open>processVideoForFastStart\<close> fails the handler returns before it registers the
  removal of the processed file.
\<close>

definition uploadFromTemp ::
  "apiConfig \<Rightarrow> Env \<Rightarrow> Video \<Rightarrow> string \<Rightarrow> string \<Rightarrow> World \<Rightarrow> World \<times> Response" where
  "uploadFromTemp cfg env video mimeType dstName w =
     (case io_Copy env dstName of
        Some err \<Rightarrow>
          (w, respondWithError StatusInternalServerError ''Failed to save file'' (Some err))
      | None \<Rightarrow>
          (case file_Seek env dstName of
             Some err \<Rightarrow>
               (w, respondWithError StatusInternalServerError ''failed to rewind file'' (Some err))
           | None \<Rightarrow>
               (case getVideoAspectRatio env dstName of
                  Inl err \<Rightarrow>
                    (w, respondWithError StatusInternalServerError
                          ''Failed to get video orientation'' (Some err))
                | Inr orientation \<Rightarrow>
                    (case processVideoForFastStart env dstName w of
                       (w1, Inl err) \<Rightarrow>
                         (w1, respondWithError StatusInternalServerError
                                ''Failed to process video'' (Some err))
                     | (w1, Inr processedPath) \<Rightarrow>
                         (case uploadProcessed cfg env video mimeType orientation processedPath w1 of
                            (w2, response) \<Rightarrow> (os_Remove processedPath w2, response))))))"

text \<open>
  The handler, lines 70 to 137, and the deferred removal of the temporary file. The
  constant \<^verbatim>\<open>maxMemory\<close> of line 71 is \<^verbatim>\<open>1 << 30\<close>, here \<open>push_bit 30 1\<close>,
  and \<open>parsed\<close> is the state after \<^verbatim>\<open>r.ParseMultipartForm(maxMemory)\<close> of line 105,
  which comes after the ownership check. The apostrophe of the message \<open>Couldn't\<close> is written \<open>CHR 0x27\<close>.
\<close>

definition handlerUploadVideo :: "apiConfig \<Rightarrow> Env \<Rightarrow> Request \<Rightarrow> World \<Rightarrow> World \<times> Response" where
  "handlerUploadVideo cfg env r w =
     (case uuid_Parse env (PathValue r ''videoID'') of
        Inl err \<Rightarrow> (w, respondWithError StatusBadRequest ''Invalid ID'' (Some err))
      | Inr videoID \<Rightarrow>
     (case auth_GetBearerToken env (Header r) of
        Inl err \<Rightarrow>
          (w, respondWithError StatusUnauthorized (''Couldn'' @ [CHR 0x27] @ ''t find JWT'') (Some err))
      | Inr token \<Rightarrow>
     (case auth_ValidateJWT env token (jwtSecret cfg) of
        Inl err \<Rightarrow>
          (w, respondWithError StatusUnauthorized (''Couldn'' @ [CHR 0x27] @ ''t validate JWT'')
                (Some err))
      | Inr userID \<Rightarrow>
     (case GetVideo w videoID of
        Inl err \<Rightarrow> (w, respondWithError StatusNotFound ''Video not found'' (Some err))
      | Inr video \<Rightarrow>
          if UserID video \<noteq> userID
          then (w, respondWithError StatusUnauthorized ''You do not own this video'' None)
          else
     (let parsed = ParseMultipartForm r (push_bit 30 1) w in
     (case FormFile r ''video'' of
        Inl err \<Rightarrow> (parsed, respondWithError StatusBadRequest ''Unable to parse form file'' (Some err))
      | Inr part \<Rightarrow>
          let contentType = ContentType part in
          if contentType = ''''
          then (parsed, respondWithError StatusBadRequest ''Missing Content-Type header'' None)
          else
     (case mime_ParseMediaType env contentType of
        Inl err \<Rightarrow> (parsed, respondWithError StatusBadRequest ''Error getting media type'' (Some err))
      | Inr mimeType \<Rightarrow>
          if mimeType \<noteq> ''video/mp4''
          then (parsed, respondWithError StatusBadRequest ''Video must be in mp4 format'' None)
          else
     (case os_CreateTemp env '''' ''tubely-upload.mp4'' of
        Inl err \<Rightarrow>
          (parsed, respondWithError StatusInternalServerError ''Unable to create file'' (Some err))
      | Inr dstName \<Rightarrow>
          (case uploadFromTemp cfg env video mimeType dstName
                  (parsed\<lparr>disk := insert dstName (disk parsed)\<rparr>) of
             (w1, response) \<Rightarrow> (os_Remove dstName w1, response))))))))))"

section \<open>The thumbnail handler: \<^verbatim>\<open>handler_upload_thumbnail.go\<close>\<close>

definition contentTypeToExt :: "Env \<Rightarrow> string \<Rightarrow> string" where
  "contentTypeToExt env contentType =
     (let t = strings_ToLower env contentType in
      if t = ''image/jpeg'' \<or> t = ''image/jpg'' then ''.jpg''
      else if t = ''image/png'' then ''.png''
      else if t = ''image/gif'' then ''.gif''
      else '''')"

text \<open>
  Lines 78 to 126, what the handler does once the media type has passed its check. The
  line that \<^verbatim>\<open>fmt.Println\<close> writes to the standard output is not modelled.
\<close>

definition storeThumbnail ::
  "apiConfig \<Rightarrow> Env \<Rightarrow> uuid \<Rightarrow> uuid \<Rightarrow> string \<Rightarrow> World \<Rightarrow> World \<times> Response" where
  "storeThumbnail cfg env videoID userID contentType w =
     (case GetVideo w videoID of
        Inl err \<Rightarrow> (w, respondWithError StatusNotFound ''Video not found'' (Some err))
      | Inr video \<Rightarrow>
          if UserID video \<noteq> userID
          then (w, respondWithError StatusUnauthorized ''You do not own this video'' None)
          else
            let ext = contentTypeToExt env contentType in
            if ext = ''''
            then (w, respondWithError StatusBadRequest ''Unsupported Content-Type'' None)
            else
              let filename = uuid_String env videoID @ ext;
                  filePath = filepath_Join env (assetsRoot cfg) filename in
              (case os_Create env filePath of
                 Some err \<Rightarrow>
                   (w, respondWithError StatusInternalServerError ''Unable to create file'' (Some err))
               | None \<Rightarrow>
                   let w1 = w\<lparr>disk := insert filePath (disk w)\<rparr> in
                   (case io_Copy env filePath of
                      Some err \<Rightarrow>
                        (w1, respondWithError StatusInternalServerError ''Failed to save file''
                               (Some err))
                    | None \<Rightarrow>
                        let publicURL = ''http://localhost:'' @ port cfg @ ''/assets/'' @ filename;
                            video = video\<lparr>ThumbnailURL := Some publicURL\<rparr> in
                        (case UpdateVideo env video w1 of
                           (w2, Some err) \<Rightarrow>
                             (w2, respondWithError StatusInternalServerError ''Video update error''
                                    (Some err))
                         | (w2, None) \<Rightarrow> (w2, respondWithJSON StatusOK video)))))"

text \<open>
  The handler, lines 29 to 76. The constant \<^verbatim>\<open>maxMemory\<close> of line 52 is
  \<^verbatim>\<open>10 << 20\<close>, here \<open>push_bit 20 10\<close>, and \<open>parsed\<close> is the state after
  \<^verbatim>\<open>r.ParseMultipartForm(maxMemory)\<close> of line 53: the call comes before the part is
  looked at, so every return from line 55 on has the files that it wrote.
\<close>

definition handlerUploadThumbnail ::
  "apiConfig \<Rightarrow> Env \<Rightarrow> Request \<Rightarrow> World \<Rightarrow> World \<times> Response" where
  "handlerUploadThumbnail cfg env r w =
     (case uuid_Parse env (PathValue r ''videoID'') of
        Inl err \<Rightarrow> (w, respondWithError StatusBadRequest ''Invalid ID'' (Some err))
      | Inr videoID \<Rightarrow>
     (case auth_GetBearerToken env (Header r) of
        Inl err \<Rightarrow>
          (w, respondWithError StatusUnauthorized (''Couldn'' @ [CHR 0x27] @ ''t find JWT'') (Some err))
      | Inr token \<Rightarrow>
     (case auth_ValidateJWT env token (jwtSecret cfg) of
        Inl err \<Rightarrow>
          (w, respondWithError StatusUnauthorized (''Couldn'' @ [CHR 0x27] @ ''t validate JWT'')
                (Some err))
      | Inr userID \<Rightarrow>
     (let parsed = ParseMultipartForm r (push_bit 20 10) w in
     (case FormFile r ''thumbnail'' of
        Inl err \<Rightarrow> (parsed, respondWithError StatusBadRequest ''Unable to parse form file'' (Some err))
      | Inr part \<Rightarrow>
          let contentType = ContentType part in
          if contentType = ''''
          then (parsed, respondWithError StatusBadRequest ''Missing Content-Type header'' None)
          else
     (case mime_ParseMediaType env contentType of
        Inl err \<Rightarrow> (parsed, respondWithError StatusBadRequest ''Error getting media type'' (Some err))
      | Inr mimeType \<Rightarrow>
          if mimeType \<noteq> ''image/jpeg'' \<and> mimeType \<noteq> ''image/png''
          then (parsed, respondWithError StatusBadRequest ''Thumbnail must be a jpeg or png'' None)
          else storeThumbnail cfg env videoID userID contentType parsed))))))"

section \<open>Example inputs\<close>

text \<open>
  Concrete inputs for the closed theorems of the second part: two presign clients, one
  that answers and one that fails, and a video that user 7 owns.
\<close>

definition exampleClient :: s3Client where
  "exampleClient bucket key expireTime =
     Inr (''https://s3.example/'' @ bucket @ ''/'' @ key @ ''?X-Amz-Expires=900'')"

definition failingClient :: s3Client where
  "failingClient bucket key expireTime = Inl (External ''no credentials'')"

definition exampleVideo :: Video where
  "exampleVideo =
     \<lparr>ID = 1, UserID = 7, ThumbnailURL = None, VideoURL = None, Descriptive = ''a title''\<rparr>"

text \<open>
  A configuration, an environment in which every collaborator succeeds, a world with
  one video that user 7 owns, and requests for that video, for the closed theorems
  below. The probe reports one stream of 1920 by 1080.
\<close>

definition exampleConfig :: apiConfig where
  "exampleConfig =
     \<lparr>jwtSecret = ''secret'', s3Bucket = ''tubely-93745'', assetsRoot = ''./assets'',
      port = ''8091''\<rparr>"

definition exampleEnv :: Env where
  "exampleEnv =
     \<lparr>uuid_Parse = (\<lambda>s. if s = ''00000000-0000-0000-0000-000000000001'' then Inr 1
                          else Inl (External ''invalid UUID'')),
      uuid_String = (\<lambda>u. ''00000000-0000-0000-0000-000000000001''),
      auth_GetBearerToken = (\<lambda>h. case map_of h ''Authorization'' of
                                    None \<Rightarrow> Inl (External ''no auth header'')
                                  | Some v \<Rightarrow> Inr (drop 7 v)),
      auth_ValidateJWT = (\<lambda>token secret. if token = ''token-of-7'' then Inr 7
                               else if token = ''token-of-8'' then Inr 8
                               else Inl (External ''invalid token'')),
      mime_ParseMediaType = (\<lambda>s. Inr s),
      strings_ToLower = (\<lambda>s. s),
      filepath_Join = (\<lambda>dir name. dir @ ''/'' @ name),
      os_CreateTemp = (\<lambda>dir pattern. Inr (''/tmp/'' @ pattern @ ''1234567'')),
      os_Create = (\<lambda>name. None),
      os_Open = (\<lambda>name. None),
      io_Copy = (\<lambda>name. None),
      file_Seek = (\<lambda>name. None),
      exec_ffprobe = (\<lambda>name. Inr ''streams: width 1920, height 1080''),
      json_Unmarshal = (\<lambda>out. Inr \<lparr>Streams = [\<lparr>Width = 1920, Height = 1080\<rparr>]\<rparr>),
      exec_ffmpeg = (\<lambda>input output. Exit0),
      rand_Read = None,
      rand_bytes = (\<lambda>i. of_nat (7 * i + 3)),
      s3_PutObject = (\<lambda>bucket key. PutOK),
      s3_Presign = exampleClient,
      db_UpdateVideo = (\<lambda>video. None)\<rparr>"

definition exampleWorld :: World where
  "exampleWorld = \<lparr>db = [1 \<mapsto> exampleVideo], disk = {}, s3 = {}\<rparr>"

definition exampleRequest :: "string \<Rightarrow> string \<Rightarrow> Request" where
  "exampleRequest token contentType =
     \<lparr>PathValue = (\<lambda>name. ''00000000-0000-0000-0000-000000000001''),
      Header = [(''Authorization'', ''Bearer '' @ token)],
      ReadForm = (\<lambda>maxMemory. []),
      FormFile = (\<lambda>name. Inr \<lparr>Bytes = ''...'', ContentType = contentType\<rparr>)\<rparr>"

text \<open>
  The same request with a part of 20 MiB: a call of \<^verbatim>\<open>ParseMultipartForm\<close> with
  a memory limit below that size stores the part in a temporary file.
\<close>

definition largeRequest :: "string \<Rightarrow> string \<Rightarrow> Request" where
  "largeRequest token contentType =
     (exampleRequest token contentType)
       \<lparr>ReadForm := (\<lambda>maxMemory. if maxMemory < push_bit 20 20 then [''/tmp/multipart-2345678'']
                                else [])\<rparr>"

text \<open>
  The example environment with a run of \<^verbatim>\<open>ffmpeg\<close> that creates its output file
  and then exits with an error.
\<close>

definition remuxFailsEnv :: Env where
  "remuxFailsEnv =
     exampleEnv\<lparr>exec_ffmpeg := (\<lambda>input output. ExitError (External ''exit status 1'') True)\<rparr>"

text \<open>An environment whose probe reports one stream of the given width and height.\<close>

definition probeEnv :: "64 word \<Rightarrow> 64 word \<Rightarrow> Env" where
  "probeEnv width height =
     exampleEnv\<lparr>json_Unmarshal := (\<lambda>out. Inr \<lparr>Streams = [\<lparr>Width = width, Height = height\<rparr>]\<rparr>)\<rparr>"

section \<open>Properties of resolve-for-read\<close>

lemma SplitN_2:
  "SplitN s sep 2 =
     (case Index s sep of None \<Rightarrow> [s] | Some m \<Rightarrow> [take m s, drop (m + length sep) s])"
  by (simp add: numeral_2_eq_2 split: option.splits)

lemma fifteen_minutes: "15 * Minute = 900 * Second"
  by (simp add: Minute_def)

text \<open>
  Claim C1. \<^verbatim>\<open>dbVideoToSignedVideo\<close> on any record: an absent or empty reference is
  returned unchanged; otherwise a reference whose trimmed text contains \<open>://\<close> is returned
  unchanged; otherwise the trimmed text is cut at its first comma and both sides are
  trimmed. With no comma (the split gives one part) or an empty trimmed side the record
  comes back with a malformed-reference error. Otherwise the presign client is asked for
  that bucket and key with a window of 900 seconds, which is 15 minutes: its URL
  replaces the reference field, and its error, if it gives one, is returned with the
  record as it was.
\<close>

theorem dbVideoToSignedVideo_cases:
  "dbVideoToSignedVideo s3Client video =
    (case VideoURL video of
       None \<Rightarrow> (video, None)
     | Some ref \<Rightarrow>
         if ref = '''' then (video, None)
         else if Contains (TrimSpace ref) ''://'' then (video, None)
         else
           (case Index (TrimSpace ref) '','' of
              None \<Rightarrow> (video, Some (MalformedVideoURL (TrimSpace ref)))
            | Some i \<Rightarrow>
                if TrimSpace (take i (TrimSpace ref)) = '''' \<or>
                   TrimSpace (drop (Suc i) (TrimSpace ref)) = ''''
                then (video, Some (EmptyBucketOrKey (TrimSpace ref)))
                else
                  (case s3Client (TrimSpace (take i (TrimSpace ref)))
                          (TrimSpace (drop (Suc i) (TrimSpace ref))) (900 * Second) of
                     Inl err \<Rightarrow> (video, Some err)
                   | Inr url \<Rightarrow> (video\<lparr>VideoURL := Some url\<rparr>, None))))"
  by (simp add: dbVideoToSignedVideo_def SplitN_2 generatePresignedURL_def fifteen_minutes
      Let_def split: option.splits sum.splits)

theorem dbVideoToSignedVideo_cases_witness:
  "dbVideoToSignedVideo exampleClient (exampleVideo\<lparr>VideoURL := Some ''mybucket, abc123.mp4''\<rparr>) =
     (exampleVideo\<lparr>VideoURL :=
        Some ''https://s3.example/mybucket/abc123.mp4?X-Amz-Expires=900''\<rparr>, None)"
proof -
  have "Index (TrimSpace ''mybucket, abc123.mp4'') '','' = Some 8"
    by code_simp
  moreover have "TrimSpace ''mybucket, abc123.mp4'' = ''mybucket, abc123.mp4''"
    by code_simp
  moreover have "TrimSpace ''mybucket'' = ''mybucket''"
    by code_simp
  moreover have "TrimSpace '' abc123.mp4'' = ''abc123.mp4''"
    by code_simp
  moreover have "\<not> Contains ''mybucket, abc123.mp4'' ''://''"
    by code_simp
  ultimately show ?thesis
    using dbVideoToSignedVideo_cases
      [of exampleClient "exampleVideo\<lparr>VideoURL := Some ''mybucket, abc123.mp4''\<rparr>"]
    by (simp add: exampleClient_def)
qed

text \<open>
  Claim C10. Whenever \<^verbatim>\<open>dbVideoToSignedVideo\<close> returns an error, a malformed
  reference or a failure of the presign client, the record it returns with the error is
  the record it was given: no error path changes the location reference.
\<close>

theorem dbVideoToSignedVideo_error_keeps_record:
  "dbVideoToSignedVideo s3Client video = (video', Some err) \<Longrightarrow> video' = video"
  by (auto simp: dbVideoToSignedVideo_def generatePresignedURL_def Let_def
      split: if_splits sum.splits)

theorem dbVideoToSignedVideo_error_keeps_record_witness:
  "dbVideoToSignedVideo failingClient (exampleVideo\<lparr>VideoURL := Some ''mybucket,abc123.mp4''\<rparr>) =
     (fst (dbVideoToSignedVideo failingClient
        (exampleVideo\<lparr>VideoURL := Some ''mybucket,abc123.mp4''\<rparr>)),
      Some (External ''no credentials'')) \<and>
   fst (dbVideoToSignedVideo failingClient (exampleVideo\<lparr>VideoURL := Some ''mybucket,abc123.mp4''\<rparr>)) =
     exampleVideo\<lparr>VideoURL := Some ''mybucket,abc123.mp4''\<rparr>"
proof -
  have h: "dbVideoToSignedVideo failingClient (exampleVideo\<lparr>VideoURL := Some ''mybucket,abc123.mp4''\<rparr>) =
     (fst (dbVideoToSignedVideo failingClient
        (exampleVideo\<lparr>VideoURL := Some ''mybucket,abc123.mp4''\<rparr>)),
      Some (External ''no credentials''))"
    by code_simp
  from dbVideoToSignedVideo_error_keeps_record [OF h] h show ?thesis
    by simp
qed

subsection \<open>Trimming and the encoded reference\<close>

lemma whiteSpace_no_comma: "e \<in> set whiteSpace \<Longrightarrow> CHR '','' \<notin> set e"
  by (auto simp: whiteSpace_def)

lemma whiteSpace_nonempty: "e \<in> set whiteSpace \<Longrightarrow> e \<noteq> []"
  by (auto simp: whiteSpace_def)

lemma leadingSpace_0_iff: "leadingSpace s = 0 \<longleftrightarrow> (\<forall>e\<in>set whiteSpace. \<not> prefix e s)"
  by (auto simp: leadingSpace_def find_None_iff find_Some_iff whiteSpace_nonempty
      split: option.splits)

lemma trailingSpace_0_iff: "trailingSpace s = 0 \<longleftrightarrow> (\<forall>e\<in>set whiteSpace. \<not> suffix e s)"
  by (auto simp: trailingSpace_def find_None_iff find_Some_iff whiteSpace_nonempty
      split: option.splits)

lemma prefix_before_sep: "c \<notin> set e \<Longrightarrow> prefix e (b @ c # k) \<Longrightarrow> prefix e b"
  by (auto simp: prefix_append prefix_Cons)

lemma suffix_after_sep: "c \<notin> set e \<Longrightarrow> suffix e (b @ c # k) \<Longrightarrow> suffix e k"
  by (auto simp: suffix_append suffix_Cons)

lemma leadingSpace_encode:
  assumes "leadingSpace b = 0"
  shows "leadingSpace (b @ CHR '','' # k) = 0"
proof -
  have "\<not> prefix e (b @ CHR '','' # k)" if e: "e \<in> set whiteSpace" for e
  proof
    assume "prefix e (b @ CHR '','' # k)"
    with whiteSpace_no_comma [OF e] have "prefix e b"
      by (rule prefix_before_sep)
    with assms e show False
      by (simp add: leadingSpace_0_iff)
  qed
  then show ?thesis
    by (simp add: leadingSpace_0_iff)
qed

lemma trailingSpace_encode:
  assumes "trailingSpace k = 0"
  shows "trailingSpace (b @ CHR '','' # k) = 0"
proof -
  have "\<not> suffix e (b @ CHR '','' # k)" if e: "e \<in> set whiteSpace" for e
  proof
    assume "suffix e (b @ CHR '','' # k)"
    with whiteSpace_no_comma [OF e] have "suffix e k"
      by (rule suffix_after_sep)
    with assms e show False
      by (simp add: trailingSpace_0_iff)
  qed
  then show ?thesis
    by (simp add: trailingSpace_0_iff)
qed

lemma leadingSpace_le: "leadingSpace s \<le> length s"
  by (auto simp: leadingSpace_def prefix_def find_Some_iff split: option.splits)

lemma trailingSpace_le: "trailingSpace s \<le> length s"
  by (auto simp: trailingSpace_def suffix_def find_Some_iff split: option.splits)

lemma length_TrimLeftSpace: "length (TrimLeftSpace s) \<le> length s"
  by (induction s rule: TrimLeftSpace.induct) (subst TrimLeftSpace.simps, auto)

lemma length_TrimRightSpace: "length (TrimRightSpace s) \<le> length s"
  by (induction s rule: TrimRightSpace.induct) (subst TrimRightSpace.simps, auto)

lemma TrimLeftSpace_shorter:
  "leadingSpace s \<noteq> 0 \<Longrightarrow> length (TrimLeftSpace s) < length s"
  using length_TrimLeftSpace [of "drop (leadingSpace s) s"] leadingSpace_le [of s]
  by (subst TrimLeftSpace.simps) auto

lemma TrimRightSpace_shorter:
  "trailingSpace s \<noteq> 0 \<Longrightarrow> length (TrimRightSpace s) < length s"
  using length_TrimRightSpace [of "take (length s - trailingSpace s) s"] trailingSpace_le [of s]
  by (subst TrimRightSpace.simps) auto

lemma TrimLeftSpace_id: "leadingSpace s = 0 \<Longrightarrow> TrimLeftSpace s = s"
  by (subst TrimLeftSpace.simps) simp

lemma TrimRightSpace_id: "trailingSpace s = 0 \<Longrightarrow> TrimRightSpace s = s"
  by (subst TrimRightSpace.simps) simp

lemma TrimSpace_id_iff: "TrimSpace s = s \<longleftrightarrow> leadingSpace s = 0 \<and> trailingSpace s = 0"
proof
  assume id: "TrimSpace s = s"
  have l: "leadingSpace s = 0"
  proof (rule ccontr)
    assume "leadingSpace s \<noteq> 0"
    then have "length (TrimLeftSpace s) < length s" by (rule TrimLeftSpace_shorter)
    with length_TrimRightSpace [of "TrimLeftSpace s"] have "length (TrimSpace s) < length s"
      by (simp add: TrimSpace_def)
    with id show False by simp
  qed
  then have "TrimLeftSpace s = s" by (rule TrimLeftSpace_id)
  with id have r: "TrimRightSpace s = s" by (simp add: TrimSpace_def)
  have "trailingSpace s = 0"
  proof (rule ccontr)
    assume "trailingSpace s \<noteq> 0"
    then have "length (TrimRightSpace s) < length s" by (rule TrimRightSpace_shorter)
    with r show False by simp
  qed
  with l show "leadingSpace s = 0 \<and> trailingSpace s = 0" ..
next
  assume "leadingSpace s = 0 \<and> trailingSpace s = 0"
  then show "TrimSpace s = s"
    by (simp add: TrimSpace_def TrimLeftSpace_id TrimRightSpace_id)
qed

lemma Index_first_sep: "c \<notin> set b \<Longrightarrow> Index (b @ c # k) [c] = Some (length b)"
  by (induction b) auto

lemma dbVideoToSignedVideo_compact:
  assumes "VideoURL video = Some ref" and "ref \<noteq> ''''"
    and "\<not> Contains (TrimSpace ref) ''://''"
  shows "dbVideoToSignedVideo s3Client video =
    (case Index (TrimSpace ref) '','' of
       None \<Rightarrow> (video, Some (MalformedVideoURL (TrimSpace ref)))
     | Some i \<Rightarrow>
         if TrimSpace (take i (TrimSpace ref)) = '''' \<or>
            TrimSpace (drop (Suc i) (TrimSpace ref)) = ''''
         then (video, Some (EmptyBucketOrKey (TrimSpace ref)))
         else
           (case s3Client (TrimSpace (take i (TrimSpace ref)))
                   (TrimSpace (drop (Suc i) (TrimSpace ref))) (15 * Minute) of
              Inl err \<Rightarrow> (video, Some err)
            | Inr url \<Rightarrow> (video\<lparr>VideoURL := Some url\<rparr>, None)))"
  using assms
  by (simp add: dbVideoToSignedVideo_def SplitN_2 generatePresignedURL_def Let_def
      split: option.splits sum.splits)

text \<open>
  Claim C3, as amended. For a stored reference that is not empty and whose trimmed text
  has no \<open>://\<close>, \<^verbatim>\<open>dbVideoToSignedVideo\<close> rejects it as malformed whenever the
  trimmed text has no comma, or the trimmed text before its first comma or the trimmed
  text after its first comma is empty. In every other case the reference is accepted:
  the text after the first comma, further commas included, is the key that goes to the
  presign client.
\<close>

theorem compact_reference_first_comma:
  assumes "VideoURL video = Some ref" and "ref \<noteq> ''''"
    and "\<not> Contains (TrimSpace ref) ''://''"
  shows
    "((case Index (TrimSpace ref) '','' of
         None \<Rightarrow> True
       | Some i \<Rightarrow> TrimSpace (take i (TrimSpace ref)) = '''' \<or>
                   TrimSpace (drop (Suc i) (TrimSpace ref)) = '''') \<longrightarrow>
      (\<exists>e. dbVideoToSignedVideo s3Client video = (video, Some e) \<and> MalformedReference e)) \<and>
     (\<forall>i. Index (TrimSpace ref) '','' = Some i \<and>
          TrimSpace (take i (TrimSpace ref)) \<noteq> '''' \<and>
          TrimSpace (drop (Suc i) (TrimSpace ref)) \<noteq> '''' \<longrightarrow>
          dbVideoToSignedVideo s3Client video =
            (case s3Client (TrimSpace (take i (TrimSpace ref)))
                    (TrimSpace (drop (Suc i) (TrimSpace ref))) (15 * Minute) of
               Inl err \<Rightarrow> (video, Some err)
             | Inr url \<Rightarrow> (video\<lparr>VideoURL := Some url\<rparr>, None)))"
  using assms
  by (auto simp: dbVideoToSignedVideo_compact split: option.splits)

text \<open>
  The claim as stated fails: \<open>bucket,key,extra\<close> has three comma-separated parts and
  is not rejected. \<^verbatim>\<open>SplitN\<close> with \<open>n = 2\<close> cuts at the first comma only, so the key
  is \<open>key,extra\<close>.
\<close>

theorem extra_comma_counterexample:
  "''bucket,key,extra'' \<noteq> [] \<and> \<not> Contains ''bucket,key,extra'' ''://'' \<and>
   dbVideoToSignedVideo exampleClient (exampleVideo\<lparr>VideoURL := Some ''bucket,key,extra''\<rparr>) =
     (exampleVideo\<lparr>VideoURL := Some ''https://s3.example/bucket/key,extra?X-Amz-Expires=900''\<rparr>,
      None)"
  by code_simp

theorem compact_reference_first_comma_witness:
  "(\<exists>e. dbVideoToSignedVideo exampleClient (exampleVideo\<lparr>VideoURL := Some ''not-a-valid-ref''\<rparr>) =
          (exampleVideo\<lparr>VideoURL := Some ''not-a-valid-ref''\<rparr>, Some e) \<and>
        MalformedReference e) \<and>
   dbVideoToSignedVideo exampleClient (exampleVideo\<lparr>VideoURL := Some ''b, k1,k2''\<rparr>) =
     (exampleVideo\<lparr>VideoURL := Some ''https://s3.example/b/k1,k2?X-Amz-Expires=900''\<rparr>, None)"
proof -
  let ?v = "exampleVideo\<lparr>VideoURL := Some ''not-a-valid-ref''\<rparr>"
  let ?w = "exampleVideo\<lparr>VideoURL := Some ''b, k1,k2''\<rparr>"
  have v: "VideoURL ?v = Some ''not-a-valid-ref''" "''not-a-valid-ref'' \<noteq> ''''"
    by simp_all
  have v3: "\<not> Contains (TrimSpace ''not-a-valid-ref'') ''://''"
    by code_simp
  have v4: "Index (TrimSpace ''not-a-valid-ref'') '','' = None"
    by code_simp
  have w: "VideoURL ?w = Some ''b, k1,k2''" "''b, k1,k2'' \<noteq> ''''"
    by simp_all
  have w3: "\<not> Contains (TrimSpace ''b, k1,k2'') ''://''"
    by code_simp
  have w4: "Index (TrimSpace ''b, k1,k2'') '','' = Some 1"
    by code_simp
  have w5: "TrimSpace (take 1 (TrimSpace ''b, k1,k2'')) = ''b''"
    by code_simp
  have w6: "TrimSpace (drop (Suc 1) (TrimSpace ''b, k1,k2'')) = ''k1,k2''"
    by code_simp
  from compact_reference_first_comma [OF v v3, of exampleClient] v4
  have "\<exists>e. dbVideoToSignedVideo exampleClient ?v = (?v, Some e) \<and> MalformedReference e"
    by simp
  moreover from compact_reference_first_comma [OF w w3, of exampleClient] w4 w5 w6
  have "dbVideoToSignedVideo exampleClient ?w =
     (exampleVideo\<lparr>VideoURL := Some ''https://s3.example/b/k1,k2?X-Amz-Expires=900''\<rparr>, None)"
    by (simp add: exampleClient_def)
  ultimately show ?thesis ..
qed

text \<open>
  Claim C4, as amended. For a bucket and a key that are not empty, hold no comma, have
  no white space at either end (\<^verbatim>\<open>TrimSpace\<close> leaves them as they are) and whose
  encoded reference has no \<open>://\<close>: \<^verbatim>\<open>dbVideoToSignedVideo\<close> on the encoded
  reference asks the presign client for exactly that bucket and that key, so the
  decoder recovers the pair.
\<close>

theorem reference_round_trip:
  assumes "bucket \<noteq> ''''" and "key \<noteq> ''''"
    and "CHR '','' \<notin> set bucket" and "CHR '','' \<notin> set key"
    and "TrimSpace bucket = bucket" and "TrimSpace key = key"
    and "\<not> Contains (encodeReference bucket key) ''://''"
  shows "dbVideoToSignedVideo s3Client (video\<lparr>VideoURL := Some (encodeReference bucket key)\<rparr>) =
    (case s3Client bucket key (15 * Minute) of
       Inl err \<Rightarrow> (video\<lparr>VideoURL := Some (encodeReference bucket key)\<rparr>, Some err)
     | Inr url \<Rightarrow> (video\<lparr>VideoURL := Some url\<rparr>, None))"
proof -
  let ?ref = "encodeReference bucket key"
  have ref: "?ref = bucket @ CHR '','' # key"
    by (simp add: encodeReference_def)
  from assms(5,6) have "leadingSpace bucket = 0" and "trailingSpace key = 0"
    by (simp_all add: TrimSpace_id_iff)
  then have "TrimSpace ?ref = ?ref"
    unfolding ref TrimSpace_id_iff by (simp add: leadingSpace_encode trailingSpace_encode)
  moreover from assms(3) have "Index ?ref '','' = Some (length bucket)"
    unfolding ref by (rule Index_first_sep)
  moreover have "take (length bucket) ?ref = bucket" "drop (Suc (length bucket)) ?ref = key"
    by (simp_all add: ref)
  moreover have "?ref \<noteq> []"
    by (simp add: ref)
  ultimately show ?thesis
    using assms
    by (simp add: dbVideoToSignedVideo_compact [of _ "encodeReference bucket key"]
        split: sum.splits)
qed

text \<open>
  The claim as stated fails: the decoder trims both sides, so a bucket that starts with
  a blank is not recovered. For the bucket \<open>" b"\<close> and the key \<open>"k"\<close> the presign
  client is asked for the bucket \<open>"b"\<close>.
\<close>

theorem reference_round_trip_counterexample:
  "'' b'' \<noteq> [] \<and> ''k'' \<noteq> [] \<and> CHR '','' \<notin> set '' b'' \<and> CHR '','' \<notin> set ''k'' \<and>
   dbVideoToSignedVideo exampleClient
     (exampleVideo\<lparr>VideoURL := Some (encodeReference '' b'' ''k'')\<rparr>) =
     (exampleVideo\<lparr>VideoURL := Some ''https://s3.example/b/k?X-Amz-Expires=900''\<rparr>, None) \<and>
   exampleClient '' b'' ''k'' (15 * Minute) = Inr ''https://s3.example/ b/k?X-Amz-Expires=900''"
  by code_simp

theorem reference_round_trip_witness:
  "dbVideoToSignedVideo exampleClient
     (exampleVideo\<lparr>VideoURL := Some (encodeReference ''tubely-93745'' ''16:9-0a1b.mp4'')\<rparr>) =
     (exampleVideo\<lparr>VideoURL :=
        Some ''https://s3.example/tubely-93745/16:9-0a1b.mp4?X-Amz-Expires=900''\<rparr>, None)"
proof -
  have "''tubely-93745'' \<noteq> []" and "''16:9-0a1b.mp4'' \<noteq> []"
    and "CHR '','' \<notin> set ''tubely-93745''" and "CHR '','' \<notin> set ''16:9-0a1b.mp4''"
    by simp_all
  moreover have "TrimSpace ''tubely-93745'' = ''tubely-93745''"
    by code_simp
  moreover have "TrimSpace ''16:9-0a1b.mp4'' = ''16:9-0a1b.mp4''"
    by code_simp
  moreover have "\<not> Contains (encodeReference ''tubely-93745'' ''16:9-0a1b.mp4'') ''://''"
    by code_simp
  ultimately have
    "dbVideoToSignedVideo exampleClient
       (exampleVideo\<lparr>VideoURL := Some (encodeReference ''tubely-93745'' ''16:9-0a1b.mp4'')\<rparr>) =
     (case exampleClient ''tubely-93745'' ''16:9-0a1b.mp4'' (15 * Minute) of
        Inl err \<Rightarrow>
          (exampleVideo\<lparr>VideoURL := Some (encodeReference ''tubely-93745'' ''16:9-0a1b.mp4'')\<rparr>,
           Some err)
      | Inr url \<Rightarrow> (exampleVideo\<lparr>VideoURL := Some url\<rparr>, None))"
    by (rule reference_round_trip)
  then show ?thesis
    by (simp add: exampleClient_def)
qed

section \<open>Properties of the handlers\<close>

text \<open>
  \<^verbatim>\<open>ParseMultipartForm\<close> changes neither the record store nor the object store, and
  adds its temporary files to the disk; a request whose parts fit in memory leaves the
  state as it is.
\<close>

lemma ParseMultipartForm_fields [simp]:
  "db (ParseMultipartForm r maxMemory w) = db w"
  "s3 (ParseMultipartForm r maxMemory w) = s3 w"
  "disk (ParseMultipartForm r maxMemory w) = disk w \<union> set (ReadForm r maxMemory)"
  by (simp_all add: ParseMultipartForm_def)

lemma ParseMultipartForm_fits:
  "ReadForm r maxMemory = [] \<Longrightarrow> ParseMultipartForm r maxMemory w = w"
  by (simp add: ParseMultipartForm_def)

text \<open>
  Claim C6. An upload request whose path names a video, whose token is valid, and whose
  requester is not the owner of the video: the handler answers 401 with
  \<open>You do not own this video\<close> and returns the world it was given, so no temporary
  file is created, nothing is put into the object store and no record is changed.
\<close>

theorem upload_by_non_owner:
  assumes "uuid_Parse env (PathValue r ''videoID'') = Inr videoID"
    and "auth_GetBearerToken env (Header r) = Inr token"
    and "auth_ValidateJWT env token (jwtSecret cfg) = Inr userID"
    and "db w videoID = Some video"
    and "UserID video \<noteq> userID"
  shows "handlerUploadVideo cfg env r w =
    (w, respondWithError StatusUnauthorized ''You do not own this video'' None)"
  using assms by (simp add: handlerUploadVideo_def GetVideo_def)

theorem upload_by_non_owner_witness:
  "handlerUploadVideo exampleConfig exampleEnv (exampleRequest ''token-of-8'' ''video/mp4'')
     exampleWorld =
   (exampleWorld, respondWithError StatusUnauthorized ''You do not own this video'' None)"
proof -
  have 1: "uuid_Parse exampleEnv (PathValue (exampleRequest ''token-of-8'' ''video/mp4'') ''videoID'') = Inr 1"
    by (simp add: exampleEnv_def exampleRequest_def)
  have 2: "auth_GetBearerToken exampleEnv (Header (exampleRequest ''token-of-8'' ''video/mp4'')) =
      Inr ''token-of-8''"
    by (simp add: exampleEnv_def exampleRequest_def)
  have 3: "auth_ValidateJWT exampleEnv ''token-of-8'' (jwtSecret exampleConfig) = Inr 8"
    by (simp add: exampleEnv_def)
  have 4: "db exampleWorld 1 = Some exampleVideo"
    by (simp add: exampleWorld_def)
  have 5: "UserID exampleVideo \<noteq> 8"
    by (simp add: exampleVideo_def)
  show ?thesis
    by (rule upload_by_non_owner [OF 1 2 3 4 5])
qed

text \<open>
  Claim C9, as amended. A thumbnail request that reaches the media-type check (the
  path names a video, the token is valid, the form has the part, its content type is
  not empty and parses): the check passes exactly for \<open>image/jpeg\<close> and
  \<open>image/png\<close>, and the handler goes on with lines 78 to 126 from the state that
  \<^verbatim>\<open>ParseMultipartForm\<close> left; for every other parsed media type, \<open>image/gif\<close>
  included, it answers 400 having created no file of its own and changed no record: the
  record store and the object store are the ones it was given, and the disk has the
  files it had and the temporary files that \<^verbatim>\<open>ParseMultipartForm\<close> of line 53
  wrote before the check for the parts over 10 MiB, and no other file.
\<close>

theorem thumbnail_media_type_check:
  assumes "uuid_Parse env (PathValue r ''videoID'') = Inr videoID"
    and "auth_GetBearerToken env (Header r) = Inr token"
    and "auth_ValidateJWT env token (jwtSecret cfg) = Inr userID"
    and "FormFile r ''thumbnail'' = Inr part"
    and "ContentType part \<noteq> ''''"
    and "mime_ParseMediaType env (ContentType part) = Inr mimeType"
  shows "handlerUploadThumbnail cfg env r w =
    (if mimeType = ''image/jpeg'' \<or> mimeType = ''image/png''
     then storeThumbnail cfg env videoID userID (ContentType part)
            (ParseMultipartForm r (push_bit 20 10) w)
     else (w\<lparr>disk := disk w \<union> set (ReadForm r (push_bit 20 10))\<rparr>,
           respondWithError StatusBadRequest ''Thumbnail must be a jpeg or png'' None))"
  using assms by (simp add: handlerUploadThumbnail_def ParseMultipartForm_def)

text \<open>
  The claim as stated fails: a part declared \<open>image/gif\<close> is rejected by the check of
  line 73, which lets only \<open>image/jpeg\<close> and \<open>image/png\<close> through.
\<close>

theorem thumbnail_gif_counterexample:
  "mime_ParseMediaType exampleEnv
     (ContentType (projr (FormFile (exampleRequest ''token-of-7'' ''image/gif'') ''thumbnail''))) =
     Inr ''image/gif'' \<and>
   handlerUploadThumbnail exampleConfig exampleEnv (exampleRequest ''token-of-7'' ''image/gif'')
     exampleWorld =
   (exampleWorld, respondWithError StatusBadRequest ''Thumbnail must be a jpeg or png'' None)"
  by (simp add: handlerUploadThumbnail_def ParseMultipartForm_def exampleEnv_def
      exampleRequest_def exampleConfig_def)

text \<open>
  The theorem at three requests of the owner: a small \<open>image/png\<close> part is stored
  (status 200), a small \<open>image/bmp\<close> part is rejected and the state is the one
  before the request, and a part of 20 MiB declared \<open>image/bmp\<close> is rejected after
  \<^verbatim>\<open>ParseMultipartForm\<close> has written it to a temporary file.
\<close>

theorem thumbnail_media_type_check_witness:
  "handlerUploadThumbnail exampleConfig exampleEnv (exampleRequest ''token-of-7'' ''image/png'')
     exampleWorld =
     storeThumbnail exampleConfig exampleEnv 1 7 ''image/png'' exampleWorld \<and>
   StatusCode (snd (handlerUploadThumbnail exampleConfig exampleEnv
     (exampleRequest ''token-of-7'' ''image/png'') exampleWorld)) = 200 \<and>
   handlerUploadThumbnail exampleConfig exampleEnv (exampleRequest ''token-of-7'' ''image/bmp'')
     exampleWorld =
   (exampleWorld, respondWithError StatusBadRequest ''Thumbnail must be a jpeg or png'' None) \<and>
   handlerUploadThumbnail exampleConfig exampleEnv (largeRequest ''token-of-7'' ''image/bmp'')
     exampleWorld =
   (exampleWorld\<lparr>disk := {''/tmp/multipart-2345678''}\<rparr>,
    respondWithError StatusBadRequest ''Thumbnail must be a jpeg or png'' None)"
proof -
  let ?r = "exampleRequest ''token-of-7'' ''image/png''"
  let ?q = "exampleRequest ''token-of-7'' ''image/bmp''"
  let ?l = "largeRequest ''token-of-7'' ''image/bmp''"
  have 1: "uuid_Parse exampleEnv (PathValue (exampleRequest ''token-of-7'' c) ''videoID'') = Inr 1"
    "uuid_Parse exampleEnv (PathValue (largeRequest ''token-of-7'' c) ''videoID'') = Inr 1" for c
    by (simp_all add: exampleEnv_def exampleRequest_def largeRequest_def)
  have 2: "auth_GetBearerToken exampleEnv (Header (exampleRequest ''token-of-7'' c)) =
      Inr ''token-of-7''"
    "auth_GetBearerToken exampleEnv (Header (largeRequest ''token-of-7'' c)) =
      Inr ''token-of-7''" for c
    by (simp_all add: exampleEnv_def exampleRequest_def largeRequest_def)
  have 3: "auth_ValidateJWT exampleEnv ''token-of-7'' (jwtSecret exampleConfig) = Inr 7"
    by (simp add: exampleEnv_def)
  have 4: "FormFile (exampleRequest ''token-of-7'' c) ''thumbnail'' =
      Inr \<lparr>Bytes = ''...'', ContentType = c\<rparr>"
    "FormFile (largeRequest ''token-of-7'' c) ''thumbnail'' =
      Inr \<lparr>Bytes = ''...'', ContentType = c\<rparr>" for c
    by (simp_all add: exampleRequest_def largeRequest_def)
  have 5: "ContentType \<lparr>Bytes = ''...'', ContentType = ''image/png''\<rparr> \<noteq> ''''"
    "ContentType \<lparr>Bytes = ''...'', ContentType = ''image/bmp''\<rparr> \<noteq> ''''"
    by simp_all
  have 6: "mime_ParseMediaType exampleEnv (ContentType \<lparr>Bytes = ''...'', ContentType = c\<rparr>) =
      Inr c" for c
    by (simp add: exampleEnv_def)
  have 7: "ReadForm (exampleRequest ''token-of-7'' c) maxMemory = []"
    "ReadForm (largeRequest ''token-of-7'' c) 10485760 = [''/tmp/multipart-2345678'']"
    for c maxMemory
    by (simp_all add: exampleRequest_def largeRequest_def)
  have 8: "disk exampleWorld = {}"
    by (simp add: exampleWorld_def)
  have a: "handlerUploadThumbnail exampleConfig exampleEnv ?r exampleWorld =
      storeThumbnail exampleConfig exampleEnv 1 7 ''image/png'' exampleWorld"
    using thumbnail_media_type_check [OF 1(1) 2(1) 3 4(1) 5(1) 6, of exampleWorld]
    by (simp add: ParseMultipartForm_fits 7)
  have b: "handlerUploadThumbnail exampleConfig exampleEnv ?q exampleWorld =
      (exampleWorld, respondWithError StatusBadRequest ''Thumbnail must be a jpeg or png'' None)"
    using thumbnail_media_type_check [OF 1(1) 2(1) 3 4(1) 5(2) 6, of exampleWorld]
    by (simp add: 7)
  have c: "handlerUploadThumbnail exampleConfig exampleEnv ?l exampleWorld =
      (exampleWorld\<lparr>disk := {''/tmp/multipart-2345678''}\<rparr>,
       respondWithError StatusBadRequest ''Thumbnail must be a jpeg or png'' None)"
    using thumbnail_media_type_check [OF 1(2) 2(2) 3 4(2) 5(2) 6, of exampleWorld]
    by (simp add: 7 8)
  have "StatusCode (snd (storeThumbnail exampleConfig exampleEnv 1 7 ''image/png'' exampleWorld)) = 200"
    by (simp add: storeThumbnail_def GetVideo_def UpdateVideo_def contentTypeToExt_def
        exampleWorld_def exampleVideo_def exampleEnv_def respondWithJSON_def StatusOK_def Let_def)
  with a b c show ?thesis by simp
qed

subsection \<open>The stages of the upload handler\<close>

text \<open>Every error response has a status other than 200.\<close>

lemma respondWithError_not_OK:
  "StatusCode (respondWithError StatusBadRequest msg err) \<noteq> StatusOK"
  "StatusCode (respondWithError StatusUnauthorized msg err) \<noteq> StatusOK"
  "StatusCode (respondWithError StatusNotFound msg err) \<noteq> StatusOK"
  "StatusCode (respondWithError StatusInternalServerError msg err) \<noteq> StatusOK"
  "StatusCode (respondWithError StatusBadGateway msg err) \<noteq> StatusOK"
  by (simp_all add: respondWithError_def StatusOK_def StatusBadRequest_def
      StatusUnauthorized_def StatusNotFound_def StatusInternalServerError_def
      StatusBadGateway_def)

text \<open>
  What the three parts of the handler do to the state: the record store, the disk, and
  the run with another presign client. On the disk the handler leaves the files of
  \<^verbatim>\<open>ParseMultipartForm\<close>, which are the server's to remove, and of its own files
  only the output of a failed run of \<^verbatim>\<open>ffmpeg\<close>.
\<close>

lemma uploadProcessed_OK:
  assumes "uploadProcessed cfg env video mimeType orientation processedPath w = (w', response)"
    and "StatusCode response = StatusOK"
  shows "w' = w\<lparr>s3 := insert (s3Bucket cfg, storageKey env orientation) (s3 w),
                db := (db w)(ID video \<mapsto>
                  video\<lparr>VideoURL := Some (encodeReference (s3Bucket cfg) (storageKey env orientation))\<rparr>)\<rparr>"
    and "response = respondWithJSON StatusOK
           (fst (dbVideoToSignedVideo (s3_Presign env)
              (video\<lparr>VideoURL := Some (encodeReference (s3Bucket cfg) (storageKey env orientation))\<rparr>)))"
  using assms
  by (auto simp: uploadProcessed_def PutObject_def UpdateVideo_def storageKey_def
      encodeReference_def respondWithError_not_OK Let_def
      split: option.splits putResult.splits prod.splits if_splits)

lemma uploadProcessed_db:
  "db (fst (uploadProcessed cfg env video mimeType orientation processedPath w)) = db w \<or>
   db (fst (uploadProcessed cfg env video mimeType orientation processedPath w)) =
     (db w)(ID video \<mapsto>
        video\<lparr>VideoURL := Some (encodeReference (s3Bucket cfg) (storageKey env orientation))\<rparr>)"
  by (auto simp: uploadProcessed_def PutObject_def UpdateVideo_def storageKey_def
      encodeReference_def Let_def
      split: option.splits putResult.splits prod.splits if_splits)

lemma uploadProcessed_disk:
  "disk (fst (uploadProcessed cfg env video mimeType orientation processedPath w)) = disk w"
  by (auto simp: uploadProcessed_def PutObject_def UpdateVideo_def Let_def
      split: option.splits putResult.splits prod.splits if_splits)

lemma uploadFromTemp_state:
  "fst (uploadFromTemp cfg env video mimeType dstName w) = w \<or>
   (\<exists>err. exec_ffmpeg env dstName (dstName @ ''.processing'') = ExitError err True \<and>
      fst (uploadFromTemp cfg env video mimeType dstName w) =
        w\<lparr>disk := insert (dstName @ ''.processing'') (disk w)\<rparr>) \<or>
   (\<exists>orientation. exec_ffmpeg env dstName (dstName @ ''.processing'') = Exit0 \<and>
      fst (uploadFromTemp cfg env video mimeType dstName w) =
        os_Remove (dstName @ ''.processing'')
          (fst (uploadProcessed cfg env video mimeType orientation (dstName @ ''.processing'')
             (w\<lparr>disk := insert (dstName @ ''.processing'') (disk w)\<rparr>))))"
  by (auto simp: uploadFromTemp_def processVideoForFastStart_def Let_def split_beta
      split: option.splits sum.splits ffmpegRun.splits)

lemma uploadFromTemp_OK:
  assumes "uploadFromTemp cfg env video mimeType dstName w = (w', response)"
    and "StatusCode response = StatusOK"
  shows "\<exists>orientation. getVideoAspectRatio env dstName = Inr orientation \<and>
      s3 w' = insert (s3Bucket cfg, storageKey env orientation) (s3 w) \<and>
      db w' = (db w)(ID video \<mapsto>
        video\<lparr>VideoURL := Some (encodeReference (s3Bucket cfg) (storageKey env orientation))\<rparr>) \<and>
      response = respondWithJSON StatusOK
        (fst (dbVideoToSignedVideo (s3_Presign env)
           (video\<lparr>VideoURL := Some (encodeReference (s3Bucket cfg) (storageKey env orientation))\<rparr>)))"
proof -
  from assms obtain orientation w1 processedPath w2 where
    o: "getVideoAspectRatio env dstName = Inr orientation"
    and p: "processVideoForFastStart env dstName w = (w1, Inr processedPath)"
    and u: "uploadProcessed cfg env video mimeType orientation processedPath w1 = (w2, response)"
    and w': "w' = os_Remove processedPath w2"
    by (auto simp: uploadFromTemp_def respondWithError_not_OK
        split: option.splits sum.splits prod.splits)
  from p have w1: "db w1 = db w" "s3 w1 = s3 w"
    by (auto simp: processVideoForFastStart_def Let_def split: ffmpegRun.splits if_splits)
  from uploadProcessed_OK [OF u assms(2)] w1 w' o show ?thesis
    by (simp add: os_Remove_def)
qed

lemma uploadFromTemp_db:
  "db (fst (uploadFromTemp cfg env video mimeType dstName w)) = db w \<or>
   (\<exists>orientation. db (fst (uploadFromTemp cfg env video mimeType dstName w)) =
     (db w)(ID video \<mapsto>
        video\<lparr>VideoURL := Some (encodeReference (s3Bucket cfg) (storageKey env orientation))\<rparr>))"
proof (cases "processVideoForFastStart env dstName w")
  case (Pair w1 res)
  then have w1: "db w1 = db w"
    by (auto simp: processVideoForFastStart_def Let_def split: ffmpegRun.splits if_splits)
  show ?thesis
    using Pair w1 uploadProcessed_db [of cfg env video mimeType _ _ w1]
    by (auto simp: uploadFromTemp_def os_Remove_def
        split: option.splits sum.splits prod.splits) (metis fst_conv)+
qed

lemma uploadFromTemp_disk:
  "disk (fst (uploadFromTemp cfg env video mimeType dstName w)) \<subseteq>
     insert (dstName @ ''.processing'') (disk w)"
  "(\<forall>err. exec_ffmpeg env dstName (dstName @ ''.processing'') \<noteq> ExitError err True) \<Longrightarrow>
   disk (fst (uploadFromTemp cfg env video mimeType dstName w)) \<subseteq> disk w"
  using uploadFromTemp_state [of cfg env video mimeType dstName w]
  by (auto simp: uploadProcessed_disk os_Remove_def)

lemma presign_irrelevant [simp]:
  "getVideoAspectRatio (env\<lparr>s3_Presign := p\<rparr>) = getVideoAspectRatio env"
  "processVideoForFastStart (env\<lparr>s3_Presign := p\<rparr>) = processVideoForFastStart env"
  "PutObject (env\<lparr>s3_Presign := p\<rparr>) = PutObject env"
  "UpdateVideo (env\<lparr>s3_Presign := p\<rparr>) = UpdateVideo env"
  "storageKey (env\<lparr>s3_Presign := p\<rparr>) = storageKey env"
  by (simp_all add: getVideoAspectRatio_def processVideoForFastStart_def PutObject_def
      UpdateVideo_def storageKey_def fun_eq_iff split: sum.splits)

lemma uploadProcessed_presign:
  "fst (uploadProcessed cfg (env\<lparr>s3_Presign := p\<rparr>) video mimeType orientation processedPath w) =
   fst (uploadProcessed cfg env video mimeType orientation processedPath w)"
  "snd (uploadProcessed cfg (env\<lparr>s3_Presign := p\<rparr>) video mimeType orientation processedPath w) \<noteq>
   snd (uploadProcessed cfg env video mimeType orientation processedPath w) \<Longrightarrow>
   db (fst (uploadProcessed cfg env video mimeType orientation processedPath w)) (ID video) =
     Some (video\<lparr>VideoURL := Some (encodeReference (s3Bucket cfg) (storageKey env orientation))\<rparr>)"
  by (auto simp: uploadProcessed_def UpdateVideo_def storageKey_def encodeReference_def Let_def
      split: option.splits prod.splits)

lemma uploadFromTemp_presign:
  "fst (uploadFromTemp cfg (env\<lparr>s3_Presign := p\<rparr>) video mimeType dstName w) =
   fst (uploadFromTemp cfg env video mimeType dstName w)"
  "snd (uploadFromTemp cfg (env\<lparr>s3_Presign := p\<rparr>) video mimeType dstName w) \<noteq>
   snd (uploadFromTemp cfg env video mimeType dstName w) \<Longrightarrow>
   \<exists>orientation. db (fst (uploadFromTemp cfg env video mimeType dstName w)) (ID video) =
     Some (video\<lparr>VideoURL := Some (encodeReference (s3Bucket cfg) (storageKey env orientation))\<rparr>)"
  using uploadProcessed_presign [where cfg = cfg and env = env and p = p and video = video]
  by (auto simp: uploadFromTemp_def os_Remove_def split: option.splits sum.splits prod.splits)
    (metis fst_conv snd_conv)+

lemma handlerUploadVideo_state:
  "fst (handlerUploadVideo cfg env r w) = w \<or>
   fst (handlerUploadVideo cfg env r w) = ParseMultipartForm r (push_bit 30 1) w \<or>
   (\<exists>video mimeType dstName.
      os_CreateTemp env '''' ''tubely-upload.mp4'' = Inr dstName \<and>
      fst (handlerUploadVideo cfg env r w) =
        os_Remove dstName (fst (uploadFromTemp cfg env video mimeType dstName
          (ParseMultipartForm r (push_bit 30 1) w
             \<lparr>disk := insert dstName (disk (ParseMultipartForm r (push_bit 30 1) w))\<rparr>))))"
  by (auto simp: handlerUploadVideo_def Let_def split_beta split: sum.splits)

lemma handlerUploadVideo_OK:
  assumes "handlerUploadVideo cfg env r w = (w', response)"
    and "StatusCode response = StatusOK"
  shows "\<exists>videoID video dstName orientation.
      uuid_Parse env (PathValue r ''videoID'') = Inr videoID \<and>
      db w videoID = Some video \<and>
      os_CreateTemp env '''' ''tubely-upload.mp4'' = Inr dstName \<and>
      getVideoAspectRatio env dstName = Inr orientation \<and>
      s3 w' = insert (s3Bucket cfg, storageKey env orientation) (s3 w) \<and>
      db w' = (db w)(ID video \<mapsto>
        video\<lparr>VideoURL := Some (encodeReference (s3Bucket cfg) (storageKey env orientation))\<rparr>) \<and>
      response = respondWithJSON StatusOK
        (fst (dbVideoToSignedVideo (s3_Presign env)
           (video\<lparr>VideoURL := Some (encodeReference (s3Bucket cfg) (storageKey env orientation))\<rparr>)))"
proof -
  from assms obtain videoID video dstName w1 where
    v: "uuid_Parse env (PathValue r ''videoID'') = Inr videoID" "db w videoID = Some video"
    and t: "os_CreateTemp env '''' ''tubely-upload.mp4'' = Inr dstName"
    and u: "uploadFromTemp cfg env video ''video/mp4'' dstName
        (ParseMultipartForm r (push_bit 30 1) w
           \<lparr>disk := insert dstName (disk (ParseMultipartForm r (push_bit 30 1) w))\<rparr>) =
      (w1, response)"
    and w': "w' = os_Remove dstName w1"
    by (auto simp: handlerUploadVideo_def GetVideo_def respondWithError_not_OK Let_def
        split: option.splits sum.splits prod.splits if_splits)
  from uploadFromTemp_OK [OF u assms(2)] v t w' show ?thesis
    by (auto simp: os_Remove_def)
qed

lemma handlerUploadVideo_db:
  "db (fst (handlerUploadVideo cfg env r w)) = db w \<or>
   (\<exists>video orientation. db (fst (handlerUploadVideo cfg env r w)) =
     (db w)(ID video \<mapsto>
        video\<lparr>VideoURL := Some (encodeReference (s3Bucket cfg) (storageKey env orientation))\<rparr>))"
proof -
  let ?parsed = "ParseMultipartForm r (push_bit 30 1) w"
  from handlerUploadVideo_state [of cfg env r w]
  consider "fst (handlerUploadVideo cfg env r w) = w"
    | "fst (handlerUploadVideo cfg env r w) = ?parsed"
    | video mimeType dstName where
      "fst (handlerUploadVideo cfg env r w) =
        os_Remove dstName (fst (uploadFromTemp cfg env video mimeType dstName
          (?parsed\<lparr>disk := insert dstName (disk ?parsed)\<rparr>)))"
    by blast
  then show ?thesis
  proof cases
    case 1
    then show ?thesis by simp
  next
    case 2
    then show ?thesis by simp
  next
    case 3
    with uploadFromTemp_db [of cfg env video mimeType dstName
        "?parsed\<lparr>disk := insert dstName (disk ?parsed)\<rparr>"]
    show ?thesis
      by (auto simp: os_Remove_def)
  qed
qed

lemma handlerUploadVideo_disk:
  "disk (fst (handlerUploadVideo cfg env r w)) \<subseteq> disk w \<union> set (ReadForm r (push_bit 30 1)) \<or>
   (\<exists>dstName err. os_CreateTemp env '''' ''tubely-upload.mp4'' = Inr dstName \<and>
      exec_ffmpeg env dstName (dstName @ ''.processing'') = ExitError err True \<and>
      disk (fst (handlerUploadVideo cfg env r w)) \<subseteq>
        insert (dstName @ ''.processing'') (disk w \<union> set (ReadForm r (push_bit 30 1))))"
proof -
  let ?parsed = "ParseMultipartForm r (push_bit 30 1) w"
  from handlerUploadVideo_state [of cfg env r w]
  consider "fst (handlerUploadVideo cfg env r w) = w"
    | "fst (handlerUploadVideo cfg env r w) = ?parsed"
    | video mimeType dstName where
      "os_CreateTemp env '''' ''tubely-upload.mp4'' = Inr dstName"
      "fst (handlerUploadVideo cfg env r w) =
        os_Remove dstName (fst (uploadFromTemp cfg env video mimeType dstName
          (?parsed\<lparr>disk := insert dstName (disk ?parsed)\<rparr>)))"
    by blast
  then show ?thesis
  proof cases
    case 1
    then show ?thesis by simp
  next
    case 2
    then show ?thesis by simp
  next
    case 3
    show ?thesis
    proof (cases "\<exists>err. exec_ffmpeg env dstName (dstName @ ''.processing'') = ExitError err True")
      case True
      with 3 uploadFromTemp_disk(1) [of cfg env video mimeType dstName
          "?parsed\<lparr>disk := insert dstName (disk ?parsed)\<rparr>"]
      show ?thesis
        by (auto simp: os_Remove_def)
    next
      case False
      with 3 uploadFromTemp_disk(2) [of env dstName cfg video mimeType
          "?parsed\<lparr>disk := insert dstName (disk ?parsed)\<rparr>"]
      show ?thesis
        by (auto simp: os_Remove_def)
    qed
  qed
qed

lemma handlerUploadVideo_presign:
  "fst (handlerUploadVideo cfg (env\<lparr>s3_Presign := p\<rparr>) r w) = fst (handlerUploadVideo cfg env r w)"
  "snd (handlerUploadVideo cfg (env\<lparr>s3_Presign := p\<rparr>) r w) \<noteq> snd (handlerUploadVideo cfg env r w) \<Longrightarrow>
   \<exists>video orientation. db (fst (handlerUploadVideo cfg env r w)) (ID video) =
     Some (video\<lparr>VideoURL := Some (encodeReference (s3Bucket cfg) (storageKey env orientation))\<rparr>)"
proof -
  show "fst (handlerUploadVideo cfg (env\<lparr>s3_Presign := p\<rparr>) r w) = fst (handlerUploadVideo cfg env r w)"
    by (simp add: handlerUploadVideo_def Let_def split_beta uploadFromTemp_presign(1)
        split: sum.splits)
next
  assume "snd (handlerUploadVideo cfg (env\<lparr>s3_Presign := p\<rparr>) r w) \<noteq> snd (handlerUploadVideo cfg env r w)"
  then obtain video mimeType n where
    "snd (uploadFromTemp cfg (env\<lparr>s3_Presign := p\<rparr>) video mimeType n
       (ParseMultipartForm r (push_bit 30 1) w
          \<lparr>disk := insert n (disk (ParseMultipartForm r (push_bit 30 1) w))\<rparr>)) \<noteq>
     snd (uploadFromTemp cfg env video mimeType n
       (ParseMultipartForm r (push_bit 30 1) w
          \<lparr>disk := insert n (disk (ParseMultipartForm r (push_bit 30 1) w))\<rparr>))"
    and "fst (handlerUploadVideo cfg env r w) =
      os_Remove n (fst (uploadFromTemp cfg env video mimeType n
        (ParseMultipartForm r (push_bit 30 1) w
           \<lparr>disk := insert n (disk (ParseMultipartForm r (push_bit 30 1) w))\<rparr>)))"
    by (auto simp: handlerUploadVideo_def Let_def split_beta split: sum.splits if_splits)
  with uploadFromTemp_presign(2) [where cfg = cfg and env = env and p = p and video = video
      and mimeType = mimeType and dstName = n
      and w = "ParseMultipartForm r (push_bit 30 1) w
        \<lparr>disk := insert n (disk (ParseMultipartForm r (push_bit 30 1) w))\<rparr>"]
  show "\<exists>video orientation. db (fst (handlerUploadVideo cfg env r w)) (ID video) =
     Some (video\<lparr>VideoURL := Some (encodeReference (s3Bucket cfg) (storageKey env orientation))\<rparr>)"
    by (auto simp: os_Remove_def)
qed

text \<open>The hexadecimal encoding has two characters of \<open>hextable\<close> for each byte.\<close>

lemma high_nibble: "unat (drop_bit 4 (v :: 8 word)) < 16"
proof -
  have "unat v < 256"
    using unsigned_less [of v, where 'a = nat] by simp
  moreover have "unat (drop_bit 4 v) = unat v div 16"
    by (simp add: drop_bit_eq_div unat_div)
  ultimately show ?thesis
    by simp
qed

lemma low_nibble: "unat ((v :: 8 word) AND 0x0f) < 16"
proof -
  have "unat (v AND 15) \<le> unat (15 :: 8 word)"
    by (rule word_and_le1 [THEN word_le_nat_alt [THEN iffD1]])
  then show ?thesis by simp
qed

lemma length_EncodeToString: "length (EncodeToString src) = 2 * length src"
  by (induction src) (simp_all add: EncodeToString_def)

lemma set_EncodeToString: "set (EncodeToString src) \<subseteq> set hextable"
proof -
  have "hextable ! i \<in> set hextable" if "i < 16" for i
    using that by (intro nth_mem) (simp add: hextable_def)
  then show ?thesis
    by (auto simp: EncodeToString_def high_nibble low_nibble)
qed

subsection \<open>The example upload\<close>

text \<open>
  The example environment at the example request: the owner uploads an mp4 whose
  stream is 1920 by 1080.
\<close>

lemma exampleEnv_fields:
  "uuid_Parse exampleEnv ''00000000-0000-0000-0000-000000000001'' = Inr 1"
  "auth_GetBearerToken exampleEnv [(''Authorization'', ''Bearer token-of-7'')] = Inr ''token-of-7''"
  "auth_ValidateJWT exampleEnv ''token-of-7'' secret = Inr 7"
  "mime_ParseMediaType exampleEnv contentType = Inr contentType"
  "os_CreateTemp exampleEnv dir pattern = Inr (''/tmp/'' @ pattern @ ''1234567'')"
  "io_Copy exampleEnv name = None"
  "file_Seek exampleEnv name = None"
  "os_Open exampleEnv name = None"
  "exec_ffmpeg exampleEnv input output = Exit0"
  "rand_Read exampleEnv = None"
  "s3_PutObject exampleEnv bucket key = PutOK"
  "s3_Presign exampleEnv = exampleClient"
  "db_UpdateVideo exampleEnv video = None"
  by (simp_all add: exampleEnv_def)

lemma exampleEnv_orientation: "getVideoAspectRatio exampleEnv name = Inr ''16:9''"
proof -
  have "almostEqual (float64_div (float64_of_int 1920) (float64_of_int 1080))
          (float64_const (16 / 9)) (float64_const (1 / 100))"
    by code_simp
  then show ?thesis
    by (simp add: getVideoAspectRatio_def exampleEnv_def)
qed

lemma exampleEnv_hex:
  "EncodeToString (map (rand_bytes exampleEnv) [0..<32]) =
     ''030a11181f262d343b424950575e656c737a81888f969da4abb2b9c0c7ced5dc''"
  by code_simp

lemma getVideoAspectRatio_ffmpeg [simp]:
  "getVideoAspectRatio (env\<lparr>exec_ffmpeg := f\<rparr>) = getVideoAspectRatio env"
  by (simp add: getVideoAspectRatio_def fun_eq_iff split: sum.splits)

lemma example_upload:
  "handlerUploadVideo exampleConfig exampleEnv (exampleRequest ''token-of-7'' ''video/mp4'')
     exampleWorld =
   (\<lparr>db = [1 \<mapsto> exampleVideo\<lparr>VideoURL := Some
       ''tubely-93745,16:9-030a11181f262d343b424950575e656c737a81888f969da4abb2b9c0c7ced5dc.mp4''\<rparr>],
     disk = {},
     s3 = {(''tubely-93745'',
       ''16:9-030a11181f262d343b424950575e656c737a81888f969da4abb2b9c0c7ced5dc.mp4'')}\<rparr>,
    respondWithJSON StatusOK (exampleVideo\<lparr>VideoURL := Some
      ''https://s3.example/tubely-93745/16:9-030a11181f262d343b424950575e656c737a81888f969da4abb2b9c0c7ced5dc.mp4?X-Amz-Expires=900''\<rparr>))"
proof -
  have s: "dbVideoToSignedVideo exampleClient (exampleVideo\<lparr>VideoURL := Some
       ''tubely-93745,16:9-030a11181f262d343b424950575e656c737a81888f969da4abb2b9c0c7ced5dc.mp4''\<rparr>) =
     (exampleVideo\<lparr>VideoURL := Some
      ''https://s3.example/tubely-93745/16:9-030a11181f262d343b424950575e656c737a81888f969da4abb2b9c0c7ced5dc.mp4?X-Amz-Expires=900''\<rparr>, None)"
    by code_simp
  have i: "ID exampleVideo = 1" "UserID exampleVideo = 7"
    by (simp_all add: exampleVideo_def)
  show ?thesis
    using s
    by (simp add: handlerUploadVideo_def uploadFromTemp_def uploadProcessed_def
        processVideoForFastStart_def PutObject_def UpdateVideo_def GetVideo_def os_Remove_def
        exampleEnv_fields exampleEnv_orientation exampleEnv_hex exampleRequest_def
        ParseMultipartForm_def exampleConfig_def exampleWorld_def i Let_def)
qed

lemma example_upload_presign_fails:
  "snd (handlerUploadVideo exampleConfig (exampleEnv\<lparr>s3_Presign := failingClient\<rparr>)
     (exampleRequest ''token-of-7'' ''video/mp4'') exampleWorld) =
   respondWithError StatusInternalServerError ''failed to sign video url''
     (Some (External ''no credentials''))"
proof -
  have s: "dbVideoToSignedVideo failingClient (exampleVideo\<lparr>VideoURL := Some
       ''tubely-93745,16:9-030a11181f262d343b424950575e656c737a81888f969da4abb2b9c0c7ced5dc.mp4''\<rparr>) =
     (exampleVideo\<lparr>VideoURL := Some
       ''tubely-93745,16:9-030a11181f262d343b424950575e656c737a81888f969da4abb2b9c0c7ced5dc.mp4''\<rparr>,
      Some (External ''no credentials''))"
    by code_simp
  have i: "ID exampleVideo = 1" "UserID exampleVideo = 7"
    by (simp_all add: exampleVideo_def)
  show ?thesis
    using s
    by (simp add: handlerUploadVideo_def uploadFromTemp_def uploadProcessed_def
        processVideoForFastStart_def PutObject_def UpdateVideo_def GetVideo_def os_Remove_def
        exampleEnv_fields exampleEnv_orientation exampleEnv_hex exampleRequest_def
        ParseMultipartForm_def exampleConfig_def exampleWorld_def i Let_def)
qed

subsection \<open>The claims about the upload handler\<close>

text \<open>
  Claim C5. For every configuration, environment, request and state: the record store
  after the upload handler is the store before it, or the store before it with one
  record whose location reference is the compact form \<open>bucket,key\<close>, the key being
  the storage key of line 180. The state after the handler is the same whatever the
  presign client answers, so no presigned URL is written to the store; and the presign
  client's answer shows in the response only in a run that has persisted the compact
  form, so signing happens after the record is stored and only for the response.
\<close>

theorem persisted_reference_is_compact:
  "(db (fst (handlerUploadVideo cfg env r w)) = db w \<or>
    (\<exists>video orientation. db (fst (handlerUploadVideo cfg env r w)) =
      (db w)(ID video \<mapsto>
         video\<lparr>VideoURL := Some (encodeReference (s3Bucket cfg) (storageKey env orientation))\<rparr>))) \<and>
   (\<forall>presign.
      fst (handlerUploadVideo cfg (env\<lparr>s3_Presign := presign\<rparr>) r w) =
      fst (handlerUploadVideo cfg env r w)) \<and>
   (\<forall>presign.
      snd (handlerUploadVideo cfg (env\<lparr>s3_Presign := presign\<rparr>) r w) \<noteq>
      snd (handlerUploadVideo cfg env r w) \<longrightarrow>
      (\<exists>video orientation. db (fst (handlerUploadVideo cfg env r w)) (ID video) =
         Some (video\<lparr>VideoURL :=
           Some (encodeReference (s3Bucket cfg) (storageKey env orientation))\<rparr>)))"
  using handlerUploadVideo_db [of cfg env r w]
    handlerUploadVideo_presign [where cfg = cfg and env = env and r = r and w = w]
  by blast

theorem persisted_reference_is_compact_witness:
  "fst (handlerUploadVideo exampleConfig (exampleEnv\<lparr>s3_Presign := failingClient\<rparr>)
     (exampleRequest ''token-of-7'' ''video/mp4'') exampleWorld) =
   fst (handlerUploadVideo exampleConfig exampleEnv
     (exampleRequest ''token-of-7'' ''video/mp4'') exampleWorld) \<and>
   snd (handlerUploadVideo exampleConfig (exampleEnv\<lparr>s3_Presign := failingClient\<rparr>)
     (exampleRequest ''token-of-7'' ''video/mp4'') exampleWorld) \<noteq>
   snd (handlerUploadVideo exampleConfig exampleEnv
     (exampleRequest ''token-of-7'' ''video/mp4'') exampleWorld) \<and>
   (\<exists>video orientation.
      db (fst (handlerUploadVideo exampleConfig exampleEnv
        (exampleRequest ''token-of-7'' ''video/mp4'') exampleWorld)) (ID video) =
      Some (video\<lparr>VideoURL :=
        Some (encodeReference (s3Bucket exampleConfig) (storageKey exampleEnv orientation))\<rparr>))"
proof -
  have d: "snd (handlerUploadVideo exampleConfig (exampleEnv\<lparr>s3_Presign := failingClient\<rparr>)
       (exampleRequest ''token-of-7'' ''video/mp4'') exampleWorld) \<noteq>
     snd (handlerUploadVideo exampleConfig exampleEnv
       (exampleRequest ''token-of-7'' ''video/mp4'') exampleWorld)"
    by (simp add: example_upload_presign_fails example_upload respondWithError_def
        respondWithJSON_def)
  with persisted_reference_is_compact [of exampleConfig exampleEnv
      "exampleRequest ''token-of-7'' ''video/mp4''" exampleWorld]
  show ?thesis
    by blast
qed

text \<open>
  Claim C7 fails in the code. The owner uploads an mp4, the temporary file
  \<open>/tmp/tubely-upload.mp41234567\<close> is created and probed, and \<^verbatim>\<open>ffmpeg\<close> creates
  \<open>/tmp/tubely-upload.mp41234567.processing\<close> and then exits with an error:
  \<^verbatim>\<open>processVideoForFastStart\<close> returns the error and an empty path, the handler
  returns at line 162, before \<^verbatim>\<open>defer os.Remove(processedPath)\<close> of line 164, and
  the output file is still on the disk when the request ends. The disk was empty before
  the request, and the part of the request fits in memory, so the file that is left is
  the handler's own.
\<close>

theorem remux_failure_leaves_output:
  "handlerUploadVideo exampleConfig remuxFailsEnv (exampleRequest ''token-of-7'' ''video/mp4'')
     exampleWorld =
   (exampleWorld\<lparr>disk := {''/tmp/tubely-upload.mp41234567.processing''}\<rparr>,
    respondWithError StatusInternalServerError ''Failed to process video''
      (Some (FfmpegFailed (External ''exit status 1''))))"
proof -
  have i: "ID exampleVideo = 1" "UserID exampleVideo = 7"
    by (simp_all add: exampleVideo_def)
  show ?thesis
    by (simp add: remuxFailsEnv_def handlerUploadVideo_def uploadFromTemp_def
        processVideoForFastStart_def GetVideo_def os_Remove_def
        exampleEnv_fields exampleEnv_orientation exampleRequest_def
        ParseMultipartForm_def exampleConfig_def exampleWorld_def i Let_def insert_Diff_if)
qed

text \<open>
  Claim C8. An upload that ends with status 200, for a file that the prober classifies
  as \<open>16:9\<close>: the request's video exists in the store before the request, the key is
  \<open>16:9-\<close>, then the hexadecimal encoding of the 32 bytes read from the random source,
  which has 64 characters, all of them hexadecimal digits, then \<open>.mp4\<close>; the object
  store holds an object with that key in the configured bucket; and the record store
  holds the record with the location reference \<open>bucket,16:9-hex.mp4\<close>. (Status 200 is
  reached only by the owner and only with the media type \<open>video/mp4\<close>.)
\<close>

theorem successful_upload_16_9:
  assumes "handlerUploadVideo cfg env r w = (w', response)"
    and "StatusCode response = StatusOK"
    and "os_CreateTemp env '''' ''tubely-upload.mp4'' = Inr dstName"
    and "getVideoAspectRatio env dstName = Inr ''16:9''"
  shows "\<exists>videoID video hexString.
      uuid_Parse env (PathValue r ''videoID'') = Inr videoID \<and>
      db w videoID = Some video \<and>
      hexString = EncodeToString (map (rand_bytes env) [0..<32]) \<and>
      length hexString = 64 \<and> set hexString \<subseteq> set ''0123456789abcdef'' \<and>
      (s3Bucket cfg, ''16:9-'' @ hexString @ ''.mp4'') \<in> s3 w' \<and>
      db w' (ID video) =
        Some (video\<lparr>VideoURL := Some (s3Bucket cfg @ '','' @ ''16:9-'' @ hexString @ ''.mp4'')\<rparr>)"
proof -
  from handlerUploadVideo_OK [OF assms(1,2)] assms(3,4)
  obtain videoID video where
    "uuid_Parse env (PathValue r ''videoID'') = Inr videoID" "db w videoID = Some video"
    "s3 w' = insert (s3Bucket cfg, storageKey env ''16:9'') (s3 w)"
    "db w' = (db w)(ID video \<mapsto>
        video\<lparr>VideoURL := Some (encodeReference (s3Bucket cfg) (storageKey env ''16:9''))\<rparr>)"
    by auto
  moreover have "length (EncodeToString (map (rand_bytes env) [0..<32])) = 64"
    by (simp add: length_EncodeToString)
  moreover have "set (EncodeToString (map (rand_bytes env) [0..<32])) \<subseteq> set ''0123456789abcdef''"
    using set_EncodeToString [of "map (rand_bytes env) [0..<32]"] by (simp add: hextable_def)
  ultimately show ?thesis
    by (simp add: storageKey_def encodeReference_def)
qed

theorem successful_upload_16_9_witness:
  "length (EncodeToString (map (rand_bytes exampleEnv) [0..<32])) = 64 \<and>
   (''tubely-93745'', ''16:9-'' @ EncodeToString (map (rand_bytes exampleEnv) [0..<32]) @ ''.mp4'')
     \<in> s3 (fst (handlerUploadVideo exampleConfig exampleEnv
            (exampleRequest ''token-of-7'' ''video/mp4'') exampleWorld)) \<and>
   db (fst (handlerUploadVideo exampleConfig exampleEnv
     (exampleRequest ''token-of-7'' ''video/mp4'') exampleWorld)) 1 =
     Some (exampleVideo\<lparr>VideoURL := Some (''tubely-93745,16:9-'' @
       EncodeToString (map (rand_bytes exampleEnv) [0..<32]) @ ''.mp4'')\<rparr>)"
proof -
  let ?run = "handlerUploadVideo exampleConfig exampleEnv
     (exampleRequest ''token-of-7'' ''video/mp4'') exampleWorld"
  have 1: "?run = (fst ?run, snd ?run)"
    by simp
  have 2: "StatusCode (snd ?run) = StatusOK"
    by (simp add: example_upload respondWithJSON_def)
  have 3: "os_CreateTemp exampleEnv '''' ''tubely-upload.mp4'' = Inr ''/tmp/tubely-upload.mp41234567''"
    by (simp add: exampleEnv_fields)
  have 4: "getVideoAspectRatio exampleEnv ''/tmp/tubely-upload.mp41234567'' = Inr ''16:9''"
    by (rule exampleEnv_orientation)
  from successful_upload_16_9 [OF 1 2 3 4]
  obtain videoID video hexString where
    v: "uuid_Parse exampleEnv (PathValue (exampleRequest ''token-of-7'' ''video/mp4'') ''videoID'') =
        Inr videoID"
      "db exampleWorld videoID = Some video"
    and h: "hexString = EncodeToString (map (rand_bytes exampleEnv) [0..<32])"
      "length hexString = 64"
    and s: "(s3Bucket exampleConfig, ''16:9-'' @ hexString @ ''.mp4'') \<in> s3 (fst ?run)"
    and d: "db (fst ?run) (ID video) =
      Some (video\<lparr>VideoURL := Some (s3Bucket exampleConfig @ '','' @ ''16:9-'' @ hexString @ ''.mp4'')\<rparr>)"
    by blast
  from v have "videoID = 1"
    by (simp add: exampleRequest_def exampleEnv_fields)
  with v have "video = exampleVideo"
    by (simp add: exampleWorld_def)
  with h s d show ?thesis
    by (simp add: exampleConfig_def exampleVideo_def)
qed

section \<open>Properties of the orientation classifier\<close>

subsection \<open>The error of one rounding\<close>

text \<open>
  \<open>floorLog2\<close> is the binary exponent, rounding to an integer is off by at most a
  half, and so \<open>roundToFloat64\<close> is off by at most half a unit in the last place:
  by at most \<open>\<bar>x\<bar> / 2 ^ 53\<close> in the normal range, and by at most \<open>2 ^ - 1075\<close> below it.
\<close>

lemma powi_nonneg: "0 \<le> k \<Longrightarrow> (2::rat) powi k = 2 ^ nat k"
  by (simp add: power_int_def)

lemma powi_neg: "0 \<le> k \<Longrightarrow> (2::rat) powi (- k) = 1 / 2 ^ nat k"
  by (simp add: power_int_minus_divide power_int_def power_one_over)

lemma bitlen_pos: "0 < n \<Longrightarrow> 1 \<le> bitlen n"
  using bitlen_nonneg [of n] bitlen_eq_zero_iff [of n] by linarith

lemma bitlen_bounds_rat:
  assumes "0 < n"
  shows "(2::rat) ^ nat (bitlen n - 1) \<le> of_int n" and "(of_int n :: rat) + 1 \<le> 2 ^ nat (bitlen n)"
proof -
  from bitlen_bounds [OF assms] have a: "2 ^ nat (bitlen n - 1) \<le> n" and b: "n < 2 ^ nat (bitlen n)"
    by simp_all
  from a have "(of_int (2 ^ nat (bitlen n - 1)) :: rat) \<le> of_int n"
    by (simp only: of_int_le_iff)
  then show "(2::rat) ^ nat (bitlen n - 1) \<le> of_int n"
    by simp
  from b have "n + 1 \<le> 2 ^ nat (bitlen n)" by simp
  then have "(of_int (n + 1) :: rat) \<le> of_int (2 ^ nat (bitlen n))"
    by (simp only: of_int_le_iff)
  then show "(of_int n :: rat) + 1 \<le> 2 ^ nat (bitlen n)"
    by simp
qed

lemma floorLog2_bounds:
  assumes "0 < x"
  shows "2 powi (floorLog2 x) \<le> x" and "x < 2 powi (floorLog2 x + 1)"
proof -
  have "2 powi (floorLog2 x) \<le> x \<and> x < 2 powi (floorLog2 x + 1)"
  proof (cases "1 \<le> x")
    case True
    define n where "n = \<lfloor>x\<rfloor>"
    from True have n: "0 < n" unfolding n_def by linarith
    have k: "floorLog2 x = bitlen n - 1"
      using True by (simp add: floorLog2_def n_def)
    from bitlen_pos [OF n] have b: "0 \<le> bitlen n - 1" "0 \<le> bitlen n" by simp_all
    have "(2::rat) powi (bitlen n - 1) = 2 ^ nat (bitlen n - 1)"
      using b(1) by (rule powi_nonneg)
    also have "\<dots> \<le> of_int n" by (rule bitlen_bounds_rat(1) [OF n])
    also have "\<dots> \<le> x" unfolding n_def by linarith
    finally have lower: "2 powi (floorLog2 x) \<le> x" by (simp add: k)
    have "x < of_int n + 1" unfolding n_def by linarith
    also have "\<dots> \<le> 2 ^ nat (bitlen n)" by (rule bitlen_bounds_rat(2) [OF n])
    also have "\<dots> = 2 powi (bitlen n)" using b(2) by (simp add: powi_nonneg)
    finally have "x < 2 powi (floorLog2 x + 1)" by (simp add: k)
    with lower show ?thesis ..
  next
    case False
    define m where "m = \<lceil>1 / x\<rceil> - 1"
    from False assms have y: "1 < 1 / x" by (simp add: field_simps)
    then have "2 \<le> \<lceil>1 / x\<rceil>" by linarith
    then have m: "0 < m" by (simp add: m_def)
    have k: "floorLog2 x = - bitlen m"
      using False by (simp add: floorLog2_def m_def)
    from bitlen_pos [OF m] have b: "0 \<le> bitlen m - 1" "0 \<le> bitlen m" by simp_all
    have ym: "of_int m < 1 / x" "1 / x \<le> of_int m + 1"
      unfolding m_def by linarith+
    have p: "(0::rat) < 2 ^ nat (bitlen m)" "(0::rat) < 2 ^ nat (bitlen m - 1)" by simp_all
    from ym(2) bitlen_bounds_rat(2) [OF m] have "1 / x \<le> 2 ^ nat (bitlen m)" by linarith
    with assms p(1) have "1 / 2 ^ nat (bitlen m) \<le> x"
      by (simp add: field_simps)
    then have lower: "2 powi (floorLog2 x) \<le> x"
      using b(2) by (simp add: k powi_neg)
    from ym(1) bitlen_bounds_rat(1) [OF m] have "2 ^ nat (bitlen m - 1) < 1 / x" by linarith
    with assms p(2) have "x < 1 / 2 ^ nat (bitlen m - 1)"
      by (simp add: field_simps)
    also have "\<dots> = 2 powi (- (bitlen m - 1))"
      using b(1) by (simp only: powi_neg)
    finally have "x < 2 powi (floorLog2 x + 1)" by (simp add: k)
    with lower show ?thesis ..
  qed
  then show "2 powi (floorLog2 x) \<le> x" and "x < 2 powi (floorLog2 x + 1)" by simp_all
qed

lemma roundHalfEven_error: "\<bar>of_int (roundHalfEven q) - q\<bar> \<le> 1 / 2"
proof -
  have "of_int \<lfloor>q\<rfloor> \<le> q" "q < of_int \<lfloor>q\<rfloor> + 1" by linarith+
  then show ?thesis
    by (auto simp: roundHalfEven_def Let_def abs_le_iff)
qed

lemma roundToFloat64_error_scale:
  assumes "x \<noteq> 0"
  shows "\<bar>roundToFloat64 x - x\<bar> \<le> 2 powi (max (floorLog2 \<bar>x\<bar>) (- 1022) - 53)"
proof -
  define e where "e = max (floorLog2 \<bar>x\<bar>) (- 1022) - 52"
  define s :: rat where "s = 2 powi e"
  have s: "0 < s" by (simp add: s_def zero_less_power_int)
  have fl: "roundToFloat64 x = of_int (roundHalfEven (x / s)) * s"
    using assms by (simp add: roundToFloat64_def Let_def e_def s_def)
  have "roundToFloat64 x - x = (of_int (roundHalfEven (x / s)) - x / s) * s"
    using s by (simp add: fl field_simps)
  then have "\<bar>roundToFloat64 x - x\<bar> = \<bar>of_int (roundHalfEven (x / s)) - x / s\<bar> * s"
    using s by (simp add: abs_mult)
  also have "\<dots> \<le> (1 / 2) * s"
    using s roundHalfEven_error [of "x / s"] by (intro mult_right_mono) simp_all
  also have "\<dots> = 2 powi (e - 1)"
    by (simp add: s_def power_int_diff)
  also have "e - 1 = max (floorLog2 \<bar>x\<bar>) (- 1022) - 53"
    by (simp add: e_def)
  finally show ?thesis .
qed

lemma floorLog2_normal:
  assumes "2 powi (- 1022) \<le> x"
  shows "- 1022 \<le> floorLog2 x"
proof (rule ccontr)
  assume "\<not> - 1022 \<le> floorLog2 x"
  then have "floorLog2 x + 1 \<le> - 1022" by simp
  then have "(2::rat) powi (floorLog2 x + 1) \<le> 2 powi (- 1022)"
    by (intro power_int_increasing) simp_all
  moreover have "0 < x"
    using assms zero_less_power_int [of "2::rat" "- 1022"] by linarith
  ultimately show False
    using floorLog2_bounds(2) [of x] assms by linarith
qed

lemma roundToFloat64_relative_error:
  assumes "2 powi (- 1022) \<le> \<bar>x\<bar>"
  shows "\<bar>roundToFloat64 x - x\<bar> \<le> \<bar>x\<bar> / 2 ^ 53"
proof -
  have pos: "0 < \<bar>x\<bar>"
    using assms zero_less_power_int [of "2::rat" "- 1022"] by linarith
  then have "x \<noteq> 0" by simp
  from roundToFloat64_error_scale [OF this] floorLog2_normal [OF assms]
  have "\<bar>roundToFloat64 x - x\<bar> \<le> 2 powi (floorLog2 \<bar>x\<bar> - 53)"
    by (simp add: max_absorb1)
  also have "\<dots> = 2 powi (floorLog2 \<bar>x\<bar>) / 2 ^ 53"
    by (simp add: power_int_diff)
  also have "\<dots> \<le> \<bar>x\<bar> / 2 ^ 53"
    using floorLog2_bounds(1) [OF pos] by (simp add: divide_right_mono)
  finally show ?thesis .
qed

lemma roundToFloat64_error:
  "\<bar>roundToFloat64 x - x\<bar> \<le> \<bar>x\<bar> / 2 ^ 53 + 2 powi (- 1075)"
proof (cases "2 powi (- 1022) \<le> \<bar>x\<bar>")
  case True
  from roundToFloat64_relative_error [OF this] zero_less_power_int [of "2::rat" "- 1075"]
  show ?thesis by linarith
next
  case False
  show ?thesis
  proof (cases "x = 0")
    case True
    then show ?thesis by (simp add: roundToFloat64_def)
  next
    case nz: False
    then have pos: "0 < \<bar>x\<bar>" by simp
    have "floorLog2 \<bar>x\<bar> < - 1022"
    proof (rule ccontr)
      assume "\<not> floorLog2 \<bar>x\<bar> < - 1022"
      then have "(2::rat) powi (- 1022) \<le> 2 powi (floorLog2 \<bar>x\<bar>)"
        by (intro power_int_increasing) simp_all
      with floorLog2_bounds(1) [OF pos] False show False by linarith
    qed
    with roundToFloat64_error_scale [OF nz]
    have "\<bar>roundToFloat64 x - x\<bar> \<le> 2 powi (- 1075)"
      by (simp add: max_absorb2)
    moreover have "0 \<le> \<bar>x\<bar> / 2 ^ 53" by simp
    ultimately show ?thesis by linarith
  qed
qed

subsection \<open>The error of the computed ratio and of the comparison\<close>

text \<open>
  A probed dimension is a non-zero 64-bit integer, so its conversion, and the quotient
  of two conversions, are in the normal range: the computed ratio is within
  \<open>4 / 2 ^ 53\<close> of the exact quotient, relatively. The comparison then decides as
  the exact one does, except within \<open>2 ^ - 49\<close> of the tolerance.
\<close>

lemma quotient_error:
  fixes w h A B u :: rat
  assumes h: "h \<noteq> 0"
    and A: "\<bar>A - w\<bar> \<le> u * \<bar>w\<bar>"
    and B: "\<bar>B - h\<bar> \<le> u * \<bar>h\<bar>"
    and u: "0 \<le> u" "u \<le> 1 / 5"
  shows "B \<noteq> 0" and "\<bar>A / B - w / h\<bar> \<le> 5 / 2 * u * \<bar>w / h\<bar>"
proof -
  have hpos: "0 < \<bar>h\<bar>" using h by simp
  have "u * \<bar>h\<bar> \<le> 1 / 5 * \<bar>h\<bar>"
    using u by (intro mult_right_mono) simp_all
  with B have Bh: "4 / 5 * \<bar>h\<bar> \<le> \<bar>B\<bar>" by linarith
  with hpos show Bnz: "B \<noteq> 0" by auto
  have num: "\<bar>A * h - w * B\<bar> \<le> 2 * u * \<bar>w\<bar> * \<bar>h\<bar>"
  proof -
    have "A * h - w * B = (A - w) * h - w * (B - h)" by (simp add: algebra_simps)
    then have "\<bar>A * h - w * B\<bar> \<le> \<bar>A - w\<bar> * \<bar>h\<bar> + \<bar>w\<bar> * \<bar>B - h\<bar>"
      by (metis abs_mult abs_triangle_ineq4)
    also have "\<bar>A - w\<bar> * \<bar>h\<bar> \<le> u * \<bar>w\<bar> * \<bar>h\<bar>"
      using A by (intro mult_right_mono) simp_all
    also have "\<bar>w\<bar> * \<bar>B - h\<bar> \<le> \<bar>w\<bar> * (u * \<bar>h\<bar>)"
      using B by (intro mult_left_mono) simp_all
    finally show ?thesis by (simp add: algebra_simps)
  qed
  have den: "4 / 5 * \<bar>h\<bar> * \<bar>h\<bar> \<le> \<bar>B\<bar> * \<bar>h\<bar>"
    using Bh hpos by (intro mult_right_mono) simp_all
  have denpos: "0 < 4 / 5 * \<bar>h\<bar> * \<bar>h\<bar>" using hpos by simp
  have "A / B - w / h = (A * h - w * B) / (B * h)"
    using Bnz h by (simp add: field_simps)
  then have "\<bar>A / B - w / h\<bar> = \<bar>A * h - w * B\<bar> / (\<bar>B\<bar> * \<bar>h\<bar>)"
    by (simp add: abs_mult)
  also have "\<dots> \<le> (2 * u * \<bar>w\<bar> * \<bar>h\<bar>) / (4 / 5 * \<bar>h\<bar> * \<bar>h\<bar>)"
    using num den denpos u by (intro frac_le) simp_all
  also have "\<dots> = 5 / 2 * u * \<bar>w / h\<bar>"
    using h by (simp add: field_simps)
  finally show "\<bar>A / B - w / h\<bar> \<le> 5 / 2 * u * \<bar>w / h\<bar>" .
qed

lemma near_lower:
  fixes q x c :: rat
  assumes "\<bar>q - x\<bar> \<le> c * \<bar>x\<bar>" and "c \<le> 1 / 2"
  shows "\<bar>x\<bar> / 2 \<le> \<bar>q\<bar>"
proof -
  have "c * \<bar>x\<bar> \<le> 1 / 2 * \<bar>x\<bar>"
    using assms(2) by (intro mult_right_mono) simp_all
  with assms(1) show ?thesis by linarith
qed

lemma error_compose:
  fixes q x r c u :: rat
  assumes q: "\<bar>q - x\<bar> \<le> c * \<bar>x\<bar>" and r: "\<bar>r - q\<bar> \<le> u * \<bar>q\<bar>" and u: "0 \<le> u"
  shows "\<bar>r - x\<bar> \<le> (c + u + u * c) * \<bar>x\<bar>"
proof -
  from q have "\<bar>q\<bar> \<le> \<bar>x\<bar> + c * \<bar>x\<bar>" by linarith
  with u have "u * \<bar>q\<bar> \<le> u * (\<bar>x\<bar> + c * \<bar>x\<bar>)"
    by (intro mult_left_mono) simp_all
  with r have "\<bar>r - q\<bar> \<le> u * \<bar>x\<bar> + u * c * \<bar>x\<bar>"
    by (simp add: algebra_simps)
  with q have "\<bar>r - x\<bar> \<le> c * \<bar>x\<bar> + u * \<bar>x\<bar> + u * c * \<bar>x\<bar>" by linarith
  then show ?thesis by (simp add: algebra_simps)
qed

lemma sint64_bounds:
  fixes wd :: "64 word"
  assumes "wd \<noteq> 0"
  shows "1 \<le> \<bar>rat_of_int (sint wd)\<bar>" and "\<bar>rat_of_int (sint wd)\<bar> \<le> 2 ^ 63"
proof -
  from assms have "sint wd \<noteq> 0"
    by (simp add: signed_eq_0_iff)
  then have "1 \<le> \<bar>sint wd\<bar>" by simp
  then have "rat_of_int 1 \<le> rat_of_int \<bar>sint wd\<bar>"
    by (simp only: of_int_le_iff)
  then show "1 \<le> \<bar>rat_of_int (sint wd)\<bar>" by simp
  have "\<bar>sint wd\<bar> \<le> 2 ^ 63"
    using sint_ge [of wd] sint_lt [of wd] by simp
  then have "rat_of_int \<bar>sint wd\<bar> \<le> rat_of_int (2 ^ 63)"
    by (simp only: of_int_le_iff)
  then show "\<bar>rat_of_int (sint wd)\<bar> \<le> 2 ^ 63" by simp
qed

lemma float64_of_int_error:
  fixes wd :: "64 word"
  assumes "wd \<noteq> 0"
  shows "\<bar>float64_of_int wd - of_int (sint wd)\<bar> \<le> 1 / 2 ^ 53 * \<bar>of_int (sint wd)\<bar>"
proof -
  have "(2::rat) powi (- 1022) \<le> 2 powi 0"
    by (intro power_int_increasing) simp_all
  with sint64_bounds(1) [OF assms] have "2 powi (- 1022) \<le> \<bar>rat_of_int (sint wd)\<bar>"
    by simp
  from roundToFloat64_relative_error [OF this] show ?thesis
    by (simp add: float64_of_int_def)
qed

lemma ratio_error:
  fixes wd ht :: "64 word"
  assumes wd: "wd \<noteq> 0" and ht: "ht \<noteq> 0"
  shows "\<bar>float64_div (float64_of_int wd) (float64_of_int ht) -
          of_int (sint wd) / of_int (sint ht)\<bar> \<le>
         4 / 2 ^ 53 * \<bar>of_int (sint wd) / of_int (sint ht)\<bar>"
proof -
  define w h :: rat where "w = of_int (sint wd)" and "h = of_int (sint ht)"
  define A B where "A = float64_of_int wd" and "B = float64_of_int ht"
  define x where "x = w / h"
  have w: "1 \<le> \<bar>w\<bar>" "\<bar>w\<bar> \<le> 2 ^ 63" and h: "1 \<le> \<bar>h\<bar>" "\<bar>h\<bar> \<le> 2 ^ 63"
    using sint64_bounds [OF wd] sint64_bounds [OF ht] by (simp_all add: w_def h_def)
  have hnz: "h \<noteq> 0" using h(1) by auto
  have Aw: "\<bar>A - w\<bar> \<le> 1 / 2 ^ 53 * \<bar>w\<bar>" and Bh: "\<bar>B - h\<bar> \<le> 1 / 2 ^ 53 * \<bar>h\<bar>"
    using float64_of_int_error [OF wd] float64_of_int_error [OF ht]
    by (simp_all add: A_def B_def w_def h_def)
  from quotient_error [OF hnz Aw Bh]
  have Bnz: "B \<noteq> 0" and q: "\<bar>A / B - x\<bar> \<le> 5 / 2 * (1 / 2 ^ 53) * \<bar>x\<bar>"
    by (simp_all add: x_def)
  have "1 / 2 ^ 63 \<le> \<bar>x\<bar>"
  proof -
    have "1 / 2 ^ 63 \<le> 1 / \<bar>h\<bar>"
      using h by (intro divide_left_mono) simp_all
    also have "\<dots> \<le> \<bar>w\<bar> / \<bar>h\<bar>"
      using w(1) h(1) by (intro divide_right_mono) simp_all
    finally show ?thesis by (simp add: x_def)
  qed
  then have "1 / 2 ^ 64 \<le> \<bar>x\<bar> / 2" by simp
  also have "\<dots> \<le> \<bar>A / B\<bar>"
    using q by (rule near_lower) simp
  finally have lo: "1 / 2 ^ 64 \<le> \<bar>A / B\<bar>" .
  have "(2::rat) powi (- 1022) \<le> 2 powi (- 64)"
    by (intro power_int_increasing) simp_all
  also have "(2::rat) powi (- 64) = 1 / 2 ^ 64"
    by (simp add: power_int_minus_divide)
  finally have "2 powi (- 1022) \<le> \<bar>A / B\<bar>"
    using lo by (rule order_trans)
  from roundToFloat64_relative_error [OF this]
  have r: "\<bar>float64_div A B - A / B\<bar> \<le> 1 / 2 ^ 53 * \<bar>A / B\<bar>"
    by (simp add: float64_div_def)
  have "\<bar>float64_div A B - x\<bar> \<le>
      (5 / 2 * (1 / 2 ^ 53) + 1 / 2 ^ 53 + 1 / 2 ^ 53 * (5 / 2 * (1 / 2 ^ 53))) * \<bar>x\<bar>"
    using q r by (rule error_compose) simp
  also have "\<dots> \<le> 4 / 2 ^ 53 * \<bar>x\<bar>"
    by (intro mult_right_mono) simp_all
  finally show ?thesis
    by (simp add: A_def B_def x_def w_def h_def)
qed

lemma ratio_error_num:
  fixes wd ht :: "64 word"
  assumes "wd \<noteq> 0" and "ht \<noteq> 0"
  shows "\<bar>float64_div (float64_of_int wd) (float64_of_int ht) -
          of_int (sint wd) / of_int (sint ht)\<bar> \<le>
         1 / 2251799813685248 * \<bar>of_int (sint wd) / of_int (sint ht)\<bar>"
  using ratio_error [OF assms] by simp

lemma float64_sub_error_num:
  "\<bar>float64_sub a b - (a - b)\<bar> \<le> 1 / 9007199254740992 * \<bar>a - b\<bar> + 1 / 9007199254740992"
proof -
  have "(2::rat) powi (- 1075) \<le> 2 powi (- 53)"
    by (intro power_int_increasing) simp_all
  also have "(2::rat) powi (- 53) = 1 / 9007199254740992"
    by (simp add: power_int_minus_divide)
  finally have "(2::rat) powi (- 1075) \<le> 1 / 9007199254740992" .
  with roundToFloat64_error [of "a - b"] show ?thesis
    by (simp add: float64_sub_def)
qed

lemma tolerance_value: "float64_const (1 / 100) = 5764607523034235 / 576460752303423488"
  by code_simp

lemma sixteen_ninths_value: "float64_const (16 / 9) = 2001599834386887 / 1125899906842624"
  by code_simp

lemma nine_sixteenths_value: "float64_const (9 / 16) = 9 / 16"
  by code_simp

lemma almostEqual_sandwich:
  fixes r x c T :: rat
  assumes r: "\<bar>r - x\<bar> \<le> 1 / 2251799813685248 * \<bar>x\<bar>"
    and c: "\<bar>c - T\<bar> \<le> 1 / 9007199254740992"
    and T: "0 \<le> T" "T \<le> 2"
  shows "\<bar>x - T\<bar> \<le> 1 / 100 - 1 / 562949953421312 \<Longrightarrow>
           almostEqual r c (float64_const (1 / 100))"
    and "almostEqual r c (float64_const (1 / 100)) \<Longrightarrow>
           \<bar>x - T\<bar> \<le> 1 / 100 + 1 / 562949953421312"
proof -
  define d where "d = float64_sub r c"
  have d: "\<bar>d - (r - c)\<bar> \<le> 1 / 9007199254740992 * \<bar>r - c\<bar> + 1 / 9007199254740992"
    unfolding d_def by (rule float64_sub_error_num)
  have x: "\<bar>x\<bar> \<le> \<bar>x - T\<bar> + T" using T by linarith
  have up: "\<bar>r - c\<bar> \<le> \<bar>x - T\<bar> + \<bar>r - x\<bar> + \<bar>c - T\<bar>" by linarith
  have lo: "\<bar>x - T\<bar> \<le> \<bar>r - c\<bar> + \<bar>r - x\<bar> + \<bar>c - T\<bar>" by linarith
  have dup: "\<bar>d\<bar> \<le> \<bar>r - c\<bar> + \<bar>d - (r - c)\<bar>" by linarith
  have dlo: "\<bar>r - c\<bar> \<le> \<bar>d\<bar> + \<bar>d - (r - c)\<bar>" by linarith
  have nn: "0 \<le> \<bar>x - T\<bar>" "0 \<le> \<bar>r - c\<bar>" by simp_all
  {
    assume "\<bar>x - T\<bar> \<le> 1 / 100 - 1 / 562949953421312"
    with r c T d x up dup nn have "\<bar>d\<bar> \<le> 5764607523034235 / 576460752303423488"
      by linarith
    then show "almostEqual r c (float64_const (1 / 100))"
      by (simp add: almostEqual_def tolerance_value d_def)
  next
    assume "almostEqual r c (float64_const (1 / 100))"
    then have "\<bar>d\<bar> \<le> 5764607523034235 / 576460752303423488"
      by (simp add: almostEqual_def tolerance_value d_def)
    with r c T d x lo dlo nn show "\<bar>x - T\<bar> \<le> 1 / 100 + 1 / 562949953421312"
      by linarith
  }
qed

lemma getVideoAspectRatio_probed:
  assumes "exec_ffprobe env filePath = Inr outBuf"
    and "json_Unmarshal env outBuf = Inr probe"
    and "Streams probe = s # rest"
    and "Width s \<noteq> 0" and "Height s \<noteq> 0"
  shows "getVideoAspectRatio env filePath =
    Inr (if almostEqual (float64_div (float64_of_int (Width s)) (float64_of_int (Height s)))
              (float64_const (16 / 9)) (float64_const (1 / 100)) then ''16:9''
         else if almostEqual (float64_div (float64_of_int (Width s)) (float64_of_int (Height s)))
              (float64_const (9 / 16)) (float64_const (1 / 100)) then ''9:16''
         else ''other'')"
  using assms by (simp add: getVideoAspectRatio_def Let_def)

text \<open>
  Claim C2, as amended. For probed dimensions \<open>w\<close> and \<open>h\<close>, both non-zero (the
  prober rejects a zero width as it rejects a zero height), with \<open>x\<close> the exact quotient
  \<open>w / h\<close> and \<open>ratio\<close> the float64 quotient of their float64 conversions: the
  classifier returns \<open>16:9\<close> if and only if the float64 difference of \<open>ratio\<close> and the
  float64 \<open>16/9\<close> is at most the float64 \<open>0.01\<close> in absolute value; otherwise
  \<open>9:16\<close> if and only if the same holds for \<open>9/16\<close>; otherwise \<open>other\<close>. The two
  comparisons are made in that order and there is no other output. In exact terms the
  classifier returns \<open>16:9\<close> whenever \<open>\<bar>x - 16/9\<bar> \<le> 0.01 - 2 ^ - 49\<close> and only when
  \<open>\<bar>x - 16/9\<bar> \<le> 0.01 + 2 ^ - 49\<close>; it returns \<open>9:16\<close> whenever
  \<open>\<bar>x - 9/16\<bar> \<le> 0.01 - 2 ^ - 49\<close> and only when \<open>\<bar>x - 9/16\<bar> \<le> 0.01 + 2 ^ - 49\<close>; and
  it returns \<open>other\<close> whenever both distances are above \<open>0.01 + 2 ^ - 49\<close> and only
  when both are above \<open>0.01 - 2 ^ - 49\<close>.
\<close>

theorem classifier_tolerance:
  assumes "exec_ffprobe env filePath = Inr outBuf"
    and "json_Unmarshal env outBuf = Inr probe"
    and "Streams probe = s # rest"
    and "Width s \<noteq> 0" and "Height s \<noteq> 0"
  shows
    "let x = rat_of_int (sint (Width s)) / rat_of_int (sint (Height s));
         ratio = float64_div (float64_of_int (Width s)) (float64_of_int (Height s));
         orientation = getVideoAspectRatio env filePath
     in orientation =
          Inr (if almostEqual ratio (float64_const (16 / 9)) (float64_const (1 / 100)) then ''16:9''
               else if almostEqual ratio (float64_const (9 / 16)) (float64_const (1 / 100))
               then ''9:16'' else ''other'') \<and>
        (\<bar>x - 16 / 9\<bar> \<le> 1 / 100 - 1 / 2 ^ 49 \<longrightarrow> orientation = Inr ''16:9'') \<and>
        (orientation = Inr ''16:9'' \<longrightarrow> \<bar>x - 16 / 9\<bar> \<le> 1 / 100 + 1 / 2 ^ 49) \<and>
        (\<bar>x - 9 / 16\<bar> \<le> 1 / 100 - 1 / 2 ^ 49 \<longrightarrow> orientation = Inr ''9:16'') \<and>
        (orientation = Inr ''9:16'' \<longrightarrow> \<bar>x - 9 / 16\<bar> \<le> 1 / 100 + 1 / 2 ^ 49) \<and>
        (1 / 100 + 1 / 2 ^ 49 < \<bar>x - 16 / 9\<bar> \<and> 1 / 100 + 1 / 2 ^ 49 < \<bar>x - 9 / 16\<bar> \<longrightarrow>
           orientation = Inr ''other'') \<and>
        (orientation = Inr ''other'' \<longrightarrow>
           1 / 100 - 1 / 2 ^ 49 < \<bar>x - 16 / 9\<bar> \<and> 1 / 100 - 1 / 2 ^ 49 < \<bar>x - 9 / 16\<bar>)"
proof -
  define x where "x = rat_of_int (sint (Width s)) / rat_of_int (sint (Height s))"
  define ratio where "ratio = float64_div (float64_of_int (Width s)) (float64_of_int (Height s))"
  define a where "a = almostEqual ratio (float64_const (16 / 9)) (float64_const (1 / 100))"
  define b where "b = almostEqual ratio (float64_const (9 / 16)) (float64_const (1 / 100))"
  have r: "\<bar>ratio - x\<bar> \<le> 1 / 2251799813685248 * \<bar>x\<bar>"
    unfolding ratio_def x_def using assms(4,5) by (rule ratio_error_num)
  have c16: "\<bar>float64_const (16 / 9) - 16 / 9\<bar> \<le> 1 / 9007199254740992"
    by (simp add: sixteen_ninths_value)
  have c9: "\<bar>float64_const (9 / 16) - 9 / 16\<bar> \<le> 1 / 9007199254740992"
    by (simp add: nine_sixteenths_value)
  have a1: "\<bar>x - 16 / 9\<bar> \<le> 1 / 100 - 1 / 562949953421312 \<Longrightarrow> a"
    and a2: "a \<Longrightarrow> \<bar>x - 16 / 9\<bar> \<le> 1 / 100 + 1 / 562949953421312"
    unfolding a_def using almostEqual_sandwich [OF r c16] by simp_all
  have b1: "\<bar>x - 9 / 16\<bar> \<le> 1 / 100 - 1 / 562949953421312 \<Longrightarrow> b"
    and b2: "b \<Longrightarrow> \<bar>x - 9 / 16\<bar> \<le> 1 / 100 + 1 / 562949953421312"
    unfolding b_def using almostEqual_sandwich [OF r c9] by simp_all
  have far: "\<bar>x - 9 / 16\<bar> \<le> 1 / 100 - 1 / 562949953421312 \<Longrightarrow> \<not> a"
    using a2 by linarith
  have o: "getVideoAspectRatio env filePath =
      Inr (if a then ''16:9'' else if b then ''9:16'' else ''other'')"
    unfolding a_def b_def ratio_def by (rule getVideoAspectRatio_probed [OF assms])
  have p: "(2::rat) ^ 49 = 562949953421312" by simp
  have 1: "\<bar>x - 16 / 9\<bar> \<le> 1 / 100 - 1 / 2 ^ 49 \<longrightarrow>
      getVideoAspectRatio env filePath = Inr ''16:9''"
    unfolding p using a1 by (simp add: o)
  have 2: "getVideoAspectRatio env filePath = Inr ''16:9'' \<longrightarrow>
      \<bar>x - 16 / 9\<bar> \<le> 1 / 100 + 1 / 2 ^ 49"
    unfolding p using a2 by (auto simp: o split: if_splits)
  have 3: "\<bar>x - 9 / 16\<bar> \<le> 1 / 100 - 1 / 2 ^ 49 \<longrightarrow>
      getVideoAspectRatio env filePath = Inr ''9:16''"
    unfolding p using b1 far by (simp add: o)
  have 4: "getVideoAspectRatio env filePath = Inr ''9:16'' \<longrightarrow>
      \<bar>x - 9 / 16\<bar> \<le> 1 / 100 + 1 / 2 ^ 49"
    unfolding p using b2 by (auto simp: o split: if_splits)
  have 5: "1 / 100 + 1 / 2 ^ 49 < \<bar>x - 16 / 9\<bar> \<and> 1 / 100 + 1 / 2 ^ 49 < \<bar>x - 9 / 16\<bar> \<longrightarrow>
      getVideoAspectRatio env filePath = Inr ''other''"
  proof
    assume "1 / 100 + 1 / 2 ^ 49 < \<bar>x - 16 / 9\<bar> \<and> 1 / 100 + 1 / 2 ^ 49 < \<bar>x - 9 / 16\<bar>"
    then have "\<not> \<bar>x - 16 / 9\<bar> \<le> 1 / 100 + 1 / 562949953421312"
      and "\<not> \<bar>x - 9 / 16\<bar> \<le> 1 / 100 + 1 / 562949953421312"
      unfolding p by linarith+
    with a2 b2 have "\<not> a" "\<not> b" by blast+
    then show "getVideoAspectRatio env filePath = Inr ''other''" by (simp add: o)
  qed
  have 6: "getVideoAspectRatio env filePath = Inr ''other'' \<longrightarrow>
      1 / 100 - 1 / 2 ^ 49 < \<bar>x - 16 / 9\<bar> \<and> 1 / 100 - 1 / 2 ^ 49 < \<bar>x - 9 / 16\<bar>"
  proof
    assume "getVideoAspectRatio env filePath = Inr ''other''"
    then have "\<not> a" "\<not> b" by (auto simp: o split: if_splits)
    with a1 b1 have "\<not> \<bar>x - 16 / 9\<bar> \<le> 1 / 100 - 1 / 562949953421312"
      and "\<not> \<bar>x - 9 / 16\<bar> \<le> 1 / 100 - 1 / 562949953421312"
      by blast+
    then show "1 / 100 - 1 / 2 ^ 49 < \<bar>x - 16 / 9\<bar> \<and> 1 / 100 - 1 / 2 ^ 49 < \<bar>x - 9 / 16\<bar>"
      unfolding p by linarith
  qed
  show ?thesis
    unfolding Let_def x_def [symmetric] ratio_def [symmetric]
    using o 1 2 3 4 5 6 unfolding a_def b_def by (intro conjI)
qed

lemma probeEnv_probe:
  "exec_ffprobe (probeEnv width height) name = Inr ''streams: width 1920, height 1080''"
  "json_Unmarshal (probeEnv width height) out = Inr \<lparr>Streams = [\<lparr>Width = width, Height = height\<rparr>]\<rparr>"
  "Streams \<lparr>Streams = [\<lparr>Width = width, Height = height\<rparr>]\<rparr> = \<lparr>Width = width, Height = height\<rparr> # []"
  by (simp_all add: probeEnv_def exampleEnv_def)

text \<open>
  The claim as stated fails at the tolerance boundary. For a stream of 1609 by 900 the
  exact ratio is \<open>16/9 + 1/100\<close>, which is within the tolerance, and the classifier
  returns \<open>other\<close>: the float64 difference of the float64 ratio and the float64
  \<open>16/9\<close> is \<open>45035996273705 / 2 ^ 52\<close>, which is above the float64 \<open>0.01\<close>.
\<close>

theorem classifier_boundary_counterexample:
  "(1609 :: 64 word) \<noteq> 0 \<and> (900 :: 64 word) \<noteq> 0 \<and>
   \<bar>rat_of_int (sint (1609 :: 64 word)) / rat_of_int (sint (900 :: 64 word)) - 16 / 9\<bar> \<le> 1 / 100 \<and>
   getVideoAspectRatio (probeEnv 1609 900) ''/tmp/tubely-upload.mp41234567'' = Inr ''other''"
proof -
  have "\<not> almostEqual (float64_div (float64_of_int 1609) (float64_of_int 900))
          (float64_const (16 / 9)) (float64_const (1 / 100))"
    by code_simp
  moreover have "\<not> almostEqual (float64_div (float64_of_int 1609) (float64_of_int 900))
          (float64_const (9 / 16)) (float64_const (1 / 100))"
    by code_simp
  ultimately have "getVideoAspectRatio (probeEnv 1609 900) ''/tmp/tubely-upload.mp41234567'' =
      Inr ''other''"
    by (simp add: getVideoAspectRatio_def probeEnv_def exampleEnv_def)
  then show ?thesis by simp
qed

theorem classifier_tolerance_witness:
  "getVideoAspectRatio (probeEnv 1920 1080) ''/tmp/tubely-upload.mp41234567'' = Inr ''16:9'' \<and>
   getVideoAspectRatio (probeEnv 1080 1920) ''/tmp/tubely-upload.mp41234567'' = Inr ''9:16'' \<and>
   getVideoAspectRatio (probeEnv 1000 1000) ''/tmp/tubely-upload.mp41234567'' = Inr ''other''"
proof -
  have nz: "Width \<lparr>Width = 1920, Height = 1080\<rparr> \<noteq> (0 :: 64 word)"
    "Height \<lparr>Width = 1920, Height = 1080\<rparr> \<noteq> (0 :: 64 word)"
    "Width \<lparr>Width = 1080, Height = 1920\<rparr> \<noteq> (0 :: 64 word)"
    "Height \<lparr>Width = 1080, Height = 1920\<rparr> \<noteq> (0 :: 64 word)"
    "Width \<lparr>Width = 1000, Height = 1000\<rparr> \<noteq> (0 :: 64 word)"
    "Height \<lparr>Width = 1000, Height = 1000\<rparr> \<noteq> (0 :: 64 word)"
    by simp_all
  note a = classifier_tolerance [OF probeEnv_probe nz(1) nz(2), unfolded Let_def,
      of "''/tmp/tubely-upload.mp41234567''"]
  note b = classifier_tolerance [OF probeEnv_probe nz(3) nz(4), unfolded Let_def,
      of "''/tmp/tubely-upload.mp41234567''"]
  note c = classifier_tolerance [OF probeEnv_probe nz(5) nz(6), unfolded Let_def,
      of "''/tmp/tubely-upload.mp41234567''"]
  have "getVideoAspectRatio (probeEnv 1920 1080) ''/tmp/tubely-upload.mp41234567'' = Inr ''16:9''"
    by (rule a [THEN conjunct2, THEN conjunct1, THEN mp]) simp
  moreover
  have "getVideoAspectRatio (probeEnv 1080 1920) ''/tmp/tubely-upload.mp41234567'' = Inr ''9:16''"
    by (rule b [THEN conjunct2, THEN conjunct2, THEN conjunct2, THEN conjunct1, THEN mp]) simp
  moreover
  have "getVideoAspectRatio (probeEnv 1000 1000) ''/tmp/tubely-upload.mp41234567'' = Inr ''other''"
    by (rule c [THEN conjunct2, THEN conjunct2, THEN conjunct2, THEN conjunct2, THEN conjunct2,
          THEN conjunct1, THEN mp]) simp
  ultimately show ?thesis by simp
qed

end
